theory Spec2Isabelle
  imports Main "HOL-Library.Word"
begin

unbundle bit_operations_syntax

section \<open>Data model of the Game Boy core\<close>

text \<open>
  The machine integers of the source are words: \<open>uint8_t\<close> is \<open>8 word\<close>, \<open>uint16_t\<close> is
  \<open>16 word\<close>, \<open>uint32_t\<close> is \<open>32 word\<close>. Arithmetic on them wraps as the C++ conversions do.
\<close>

type_synonym u8 = "8 word"
type_synonym u16 = "16 word"
type_synonym u32 = "32 word"

text \<open>\<open>enum class PPUMode\<close>, in the order of its declaration.\<close>

datatype PPUMode = HBLANK | VBLANK | OAM_SCAN | PIXEL_TRANSFER

text \<open>
  The anonymous struct \<open>registers\<close>. The fields \<open>a, f, b, c, d, e, h, l, sp, pc\<close> carry the prefix
  \<open>reg_\<close>, since a one-letter selector would capture the variables of every statement.
\<close>

record Registers =
  reg_a :: u8
  reg_f :: u8
  reg_b :: u8
  reg_c :: u8
  reg_d :: u8
  reg_e :: u8
  reg_h :: u8
  reg_l :: u8
  reg_sp :: u16
  reg_pc :: u16

text \<open>The anonymous struct \<open>gpu\<close> (\<open>lcdc\<close>, \<open>stat\<close>, \<open>ly\<close>).\<close>

record Gpu =
  gpu_lcdc :: u8
  gpu_stat :: u8
  gpu_ly :: u8

text \<open>
  The members \<open>graphics\<close>, \<open>interrupts\<close>, \<open>dma\<close> and \<open>input\<close> are used by
  \<open>GameBoyEmulator.cpp\<close> but declared in no header of the repository. Their fields are
  the ones the code reads and writes; the byte-wide ones are \<open>u8\<close>, as the masks applied
  to them (\<open>0x04\<close>, \<open>0x40\<close>, \<open>0x1F\<close>, \<open>0x0F\<close>) and the copies from \<open>io[]\<close> indicate.
\<close>

record Graphics =
  gfx_ly :: u8
  gfx_lyc :: u8
  gfx_stat :: u8
  gfx_scx :: u8
  gfx_scy :: u8
  gfx_wx :: u8
  gfx_wy :: u8
  gfx_bgp :: u8
  gfx_obp0 :: u8
  gfx_obp1 :: u8

record Interrupts =
  int_flags :: u8
  int_enable :: u8

record Dma =
  dma_active :: bool
  dma_source :: u16
  dma_destination :: u16
  dma_length :: u16
  dma_remaining :: u16

record Input =
  in_buttons :: u8
  in_directions :: u8

text \<open>
  The emulator object. \<open>memory\<close> is the flat \<open>std::array<uint8_t, 0x10000>\<close>, indexed by
  exactly the 16-bit addresses. The fixed-size \<open>std::array\<close> regions (\<open>romBank0\<close>, \<open>vram\<close>,
  \<open>wramBank0\<close>, \<open>oam\<close>, \<open>io\<close>, \<open>hram\<close>) are functions of the index; the bus only ever
  indexes them inside their size. The \<open>std::vector\<close> regions (\<open>romBankN\<close>, \<open>externalRam\<close>,
  \<open>wramBankN\<close>) have a run-time size, so they are lists and an access outside the list is
  an error of the model. \<open>ppuCycles\<close> has no declaration in the repository; it is an
  unbounded integer here (no value reached in this development exceeds 457).
  \<open>cerr\<close> is the text written to \<open>std::cerr\<close> so far.
\<close>

record GameBoy =
  memory :: "u16 \<Rightarrow> u8"
  cartridgeROM :: "u8 list"
  registers :: Registers
  gpu :: Gpu
  romBank0 :: "nat \<Rightarrow> u8"
  romBankN :: "u8 list"
  vram :: "nat \<Rightarrow> u8"
  externalRam :: "u8 list"
  wramBank0 :: "nat \<Rightarrow> u8"
  wramBankN :: "u8 list"
  oam :: "nat \<Rightarrow> u8"
  io :: "nat \<Rightarrow> u8"
  hram :: "nat \<Rightarrow> u8"
  ramEnabled :: bool
  ppuMode :: PPUMode
  ppuCycles :: int
  ppuEnabled :: bool
  ppuWindowEnabled :: bool
  ppuSpritesEnabled :: bool
  ppuBackgroundEnabled :: bool
  graphics :: Graphics
  interrupts :: Interrupts
  dma :: Dma
  timerEnabled :: bool
  timerClock :: u8
  input :: Input
  cerr :: string

section \<open>Flags\<close>

text \<open>
  Modelled from the spec: the flag accessors \<open>getZeroFlag\<close>, \<open>setZeroFlag\<close>, ... are
  called by the CPU operations but defined nowhere in the repository. The spec gives a
  4-bit flag set (zero, subtract, half-carry, carry) held in the register F, whose low
  nibble is zero after any flag-setting operation. The flags are therefore the bits 7, 6,
  5 and 4 of F in that order, and a setter writes its bit and clears the low nibble.
\<close>

definition getFlag :: "u8 \<Rightarrow> GameBoy \<Rightarrow> bool" where
  "getFlag m s = (reg_f (registers s) AND m \<noteq> 0)"

definition setFlag :: "u8 \<Rightarrow> bool \<Rightarrow> GameBoy \<Rightarrow> GameBoy" where
  "setFlag m v s =
     s\<lparr>registers := (registers s)\<lparr>reg_f :=
          (if v then reg_f (registers s) OR m else reg_f (registers s) AND NOT m) AND 0xF0\<rparr>\<rparr>"

definition getZeroFlag :: "GameBoy \<Rightarrow> bool" where
  "getZeroFlag = getFlag 0x80"

definition getSubtractFlag :: "GameBoy \<Rightarrow> bool" where
  "getSubtractFlag = getFlag 0x40"

definition getHalfCarryFlag :: "GameBoy \<Rightarrow> bool" where
  "getHalfCarryFlag = getFlag 0x20"

definition getCarryFlag :: "GameBoy \<Rightarrow> bool" where
  "getCarryFlag = getFlag 0x10"

definition setZeroFlag :: "bool \<Rightarrow> GameBoy \<Rightarrow> GameBoy" where
  "setZeroFlag = setFlag 0x80"

definition setSubtractFlag :: "bool \<Rightarrow> GameBoy \<Rightarrow> GameBoy" where
  "setSubtractFlag = setFlag 0x40"

definition setHalfCarryFlag :: "bool \<Rightarrow> GameBoy \<Rightarrow> GameBoy" where
  "setHalfCarryFlag = setFlag 0x20"

definition setCarryFlag :: "bool \<Rightarrow> GameBoy \<Rightarrow> GameBoy" where
  "setCarryFlag = setFlag 0x10"

section \<open>CPU operations\<close>

text \<open>
  Each operation of the source mutates the flags and returns a value; the model returns
  the value together with the new machine.
\<close>

definition inc :: "u8 \<Rightarrow> GameBoy \<Rightarrow> u8 \<times> GameBoy" where
  "inc v s =
     (let result = v + 1;
          s1 = setZeroFlag (result = 0) s;
          s2 = setSubtractFlag False s1;
          s3 = setHalfCarryFlag ((v AND 0x0F) = 0x0F) s2
      in (result, s3))"

text \<open>
  \<open>add16\<close>: the operands are promoted to \<open>int\<close> and the sum (at most \<open>0x1FFFE\<close>) is stored
  in a \<open>uint32_t\<close>, so the 32-bit sum does not wrap; the result is its low 16 bits.
\<close>

definition add16 :: "u16 \<Rightarrow> u16 \<Rightarrow> GameBoy \<Rightarrow> u16 \<times> GameBoy" where
  "add16 x y s =
     (let result = (ucast x :: u32) + ucast y;
          s1 = setSubtractFlag False s;
          s2 = setHalfCarryFlag
                 ((ucast (x AND 0x0FFF) :: u32) + ucast (y AND 0x0FFF) > 0x0FFF) s1;
          s3 = setCarryFlag (result > 0xFFFF) s2
      in (ucast result, s3))"

section \<open>Errors\<close>

text \<open>
  \<open>OutOfRange\<close> is the \<open>std::out_of_range\<close> thrown by the 32-bit bus accessors.
  \<open>OutOfBounds\<close> stands for indexing a \<open>std::vector\<close> at or beyond its size, which the
  C++ code does not check (undefined behaviour): the model stops there.
\<close>

datatype error = OutOfRange | OutOfBounds

definition vec_read :: "u8 list \<Rightarrow> nat \<Rightarrow> error + u8" where
  "vec_read xs i = (if i < length xs then Inr (xs ! i) else Inl OutOfBounds)"

definition vec_write :: "u8 list \<Rightarrow> nat \<Rightarrow> u8 \<Rightarrow> error + u8 list" where
  "vec_write xs i v = (if i < length xs then Inr (xs[i := v]) else Inl OutOfBounds)"

section \<open>Lifecycle: reset, ROM loading, flat memory access\<close>

definition initializeRegisters :: "GameBoy \<Rightarrow> GameBoy" where
  "initializeRegisters s =
     s\<lparr>registers := \<lparr>reg_a = 0x01, reg_f = 0xB0, reg_b = 0x00, reg_c = 0x13,
                      reg_d = 0x00, reg_e = 0xD8, reg_h = 0x01, reg_l = 0x4D,
                      reg_sp = 0xFFFE, reg_pc = 0x0100\<rparr>,
       gpu := \<lparr>gpu_lcdc = 0, gpu_stat = 0, gpu_ly = 0\<rparr>\<rparr>"

definition reset :: "GameBoy \<Rightarrow> GameBoy" where
  "reset s = initializeRegisters (s\<lparr>memory := (\<lambda>_. 0)\<rparr>)"

definition NINTENDO_LOGO :: "u8 list" where
  "NINTENDO_LOGO =
     [0xCE, 0xED, 0x66, 0x66, 0xCC, 0x0D, 0x00, 0x0B,
      0x03, 0x73, 0x00, 0x83, 0x00, 0x0C, 0x00, 0x0D]"

definition validateROM :: "u8 list \<Rightarrow> bool" where
  "validateROM data =
     (if length data < 0x150 then False
      else take (length NINTENDO_LOGO) (drop 0x104 data) = NINTENDO_LOGO)"

text \<open>\<open>loadROM\<close> returns its boolean result and the new machine.\<close>

definition loadROM :: "u8 list \<Rightarrow> GameBoy \<Rightarrow> bool \<times> GameBoy" where
  "loadROM data s =
     (if \<not> validateROM data then (False, s)
      else
        let romSize = min (length data) 0x8000
        in (True, s\<lparr>cartridgeROM := data,
                     memory := (\<lambda>i. if unat i < romSize then data ! unat i else memory s i)\<rparr>))"

definition readMemory32 :: "u32 \<Rightarrow> GameBoy \<Rightarrow> error + u8" where
  "readMemory32 address s =
     (if address \<ge> 0x10000 then Inl OutOfRange else Inr (memory s (ucast address)))"

definition writeMemory32 :: "u32 \<Rightarrow> u8 \<Rightarrow> GameBoy \<Rightarrow> error + GameBoy" where
  "writeMemory32 address v s =
     (if address \<ge> 0x10000 then Inl OutOfRange
      else if address < 0x8000 then Inr s
      else Inr (s\<lparr>memory := (memory s)(ucast address := v)\<rparr>))"

section \<open>Loading a saved state\<close>

text \<open>
  A \<open>std::ifstream\<close> is the bytes not yet consumed and whether the stream is still good.
  \<open>istream::read\<close> of \<open>n\<close> bytes on a good stream stores the bytes that are there, up to
  \<open>n\<close>; when fewer than \<open>n\<close> remain it stores those and sets the fail state. On a stream
  that is not good it stores nothing.
\<close>

record istream =
  is_bytes :: "u8 list"
  is_good :: bool

definition istream_read :: "nat \<Rightarrow> istream \<Rightarrow> u8 list \<times> istream" where
  "istream_read n st =
     (if \<not> is_good st then ([], st)
      else if n \<le> length (is_bytes st)
        then (take n (is_bytes st), st\<lparr>is_bytes := drop n (is_bytes st)\<rparr>)
      else (is_bytes st, \<lparr>is_bytes = [], is_good = False\<rparr>))"

text \<open>
  The bytes that arrive overwrite the front of the destination object; the rest of the
  object keeps its old bytes.
\<close>

definition overlay :: "u8 list \<Rightarrow> u8 list \<Rightarrow> u8 list" where
  "overlay new old = new @ drop (length new) old"

definition store_memory :: "u8 list \<Rightarrow> (u16 \<Rightarrow> u8) \<Rightarrow> (u16 \<Rightarrow> u8)" where
  "store_memory bs m = (\<lambda>i. if unat i < length bs then bs ! unat i else m i)"

text \<open>
  The object representation of \<open>registers\<close> (\<open>sizeof\<close> 12: eight bytes, then \<open>sp\<close> and
  \<open>pc\<close> low byte first) and of \<open>gpu\<close> (\<open>sizeof\<close> 3), as on the little-endian hosts the
  project builds for.
\<close>

definition Registers_bytes :: "Registers \<Rightarrow> u8 list" where
  "Registers_bytes r =
     [reg_a r, reg_f r, reg_b r, reg_c r, reg_d r, reg_e r, reg_h r, reg_l r,
      ucast (reg_sp r), ucast (drop_bit 8 (reg_sp r)),
      ucast (reg_pc r), ucast (drop_bit 8 (reg_pc r))]"

definition le16 :: "u8 \<Rightarrow> u8 \<Rightarrow> u16" where
  "le16 lo hi = ucast lo OR push_bit 8 (ucast hi)"

definition Registers_of_bytes :: "u8 list \<Rightarrow> Registers" where
  "Registers_of_bytes bs =
     \<lparr>reg_a = bs ! 0, reg_f = bs ! 1, reg_b = bs ! 2, reg_c = bs ! 3,
      reg_d = bs ! 4, reg_e = bs ! 5, reg_h = bs ! 6, reg_l = bs ! 7,
      reg_sp = le16 (bs ! 8) (bs ! 9), reg_pc = le16 (bs ! 10) (bs ! 11)\<rparr>"

definition Gpu_bytes :: "Gpu \<Rightarrow> u8 list" where
  "Gpu_bytes g = [gpu_lcdc g, gpu_stat g, gpu_ly g]"

definition Gpu_of_bytes :: "u8 list \<Rightarrow> Gpu" where
  "Gpu_of_bytes bs = \<lparr>gpu_lcdc = bs ! 0, gpu_stat = bs ! 1, gpu_ly = bs ! 2\<rparr>"

text \<open>
  \<open>loadState\<close>: the file is \<open>None\<close> when it cannot be opened, else its bytes. The three
  reads follow one another on the same stream and no result of a read is tested.
\<close>

definition loadState :: "u8 list option \<Rightarrow> GameBoy \<Rightarrow> bool \<times> GameBoy" where
  "loadState file s =
     (case file of
        None \<Rightarrow> (False, s)
      | Some bytes \<Rightarrow>
          let st0 = \<lparr>is_bytes = bytes, is_good = True\<rparr>;
              (m, st1) = istream_read 0x10000 st0;
              s1 = s\<lparr>memory := store_memory m (memory s)\<rparr>;
              (r, st2) = istream_read 12 st1;
              s2 = s1\<lparr>registers :=
                      Registers_of_bytes (overlay r (Registers_bytes (registers s1)))\<rparr>;
              (g, st3) = istream_read 3 st2;
              s3 = s2\<lparr>gpu := Gpu_of_bytes (overlay g (Gpu_bytes (gpu s2)))\<rparr>
          in (True, s3))"

section \<open>The banked memory bus\<close>

text \<open>
  The 16-bit accessors route an address to its region. The echo range calls the accessor
  again at \<open>address - 0x2000\<close>, which lies in work RAM, so the recursion has depth one.
  The argument of that call is an \<open>int\<close>. \<open>GameBoyEmulator.cpp\<close> defines a 32-bit and a
  16-bit accessor of the same name, and between the two the call with an \<open>int\<close> is
  ambiguous as written; the class that declares the banked regions (\<open>part_002\<close>)
  declares the 16-bit accessor only, and the comment on the call is \<open>Echo RAM\<close>. The model
  takes the call to the 16-bit accessor, under which the echo range mirrors work RAM.
\<close>

function readMemory16 :: "u16 \<Rightarrow> GameBoy \<Rightarrow> error + u8" where
  "readMemory16 address s =
     (if address < 0x4000 then Inr (romBank0 s (unat address))
      else if address < 0x8000 then vec_read (romBankN s) (unat (address - 0x4000))
      else if address < 0xA000 then Inr (vram s (unat (address - 0x8000)))
      else if address < 0xC000 then vec_read (externalRam s) (unat (address - 0xA000))
      else if address < 0xD000 then Inr (wramBank0 s (unat (address - 0xC000)))
      else if address < 0xE000 then vec_read (wramBankN s) (unat (address - 0xD000))
      else if address < 0xFE00 then readMemory16 (address - 0x2000) s
      else if address < 0xFEA0 then Inr (oam s (unat (address - 0xFE00)))
      else if address < 0xFF00 then Inr 0
      else if address < 0xFF80 then Inr (io s (unat (address - 0xFF00)))
      else if address < 0xFFFF then Inr (hram s (unat (address - 0xFF80)))
      else Inr (int_enable (interrupts s)))"
  by pat_completeness auto
termination
proof (relation "measure (\<lambda>(address, s). if 0xE000 \<le> address \<and> address < 0xFE00 then 1 else 0)")
  show "wf (measure (\<lambda>(address :: u16, s :: GameBoy).
              if 0xE000 \<le> address \<and> address < 0xFE00 then 1 else 0))"
    by simp
next
  fix address :: u16 and s :: GameBoy
  assume "\<not> address < 0xE000" and "address < 0xFE00"
  then have "0xE000 \<le> unat address" and "unat address < 0xFE00"
    by (simp_all add: word_less_nat_alt)
  then have "unat (address - 0x2000) < 0xE000"
    by (simp add: unat_sub_if_size word_size)
  then have "\<not> 0xE000 \<le> address - 0x2000"
    by (simp add: word_le_nat_alt)
  then show "((address - 0x2000, s), (address, s))
       \<in> measure (\<lambda>(address, s). if 0xE000 \<le> address \<and> address < 0xFE00 then 1 else 0)"
    using \<open>\<not> address < 0xE000\<close> \<open>address < 0xFE00\<close> by (simp add: not_less)
qed

subsection \<open>Side effects of the I/O registers\<close>

definition updateLCDControl :: "GameBoy \<Rightarrow> GameBoy" where
  "updateLCDControl s =
     s\<lparr>ppuEnabled := (io s 0x40 AND 0x80 \<noteq> 0),
       ppuWindowEnabled := (io s 0x40 AND 0x20 \<noteq> 0),
       ppuSpritesEnabled := (io s 0x40 AND 0x02 \<noteq> 0),
       ppuBackgroundEnabled := (io s 0x40 AND 0x01 \<noteq> 0)\<rparr>"

definition updateLCDStatus :: "GameBoy \<Rightarrow> GameBoy" where
  "updateLCDStatus s =
     (if ppuEnabled s then
        (if gfx_ly (graphics s) = gfx_lyc (graphics s) then
           let s1 = s\<lparr>graphics := (graphics s)\<lparr>gfx_stat := gfx_stat (graphics s) OR 0x04\<rparr>\<rparr>
           in (if gfx_stat (graphics s1) AND 0x40 \<noteq> 0
               then s1\<lparr>interrupts :=
                        (interrupts s1)\<lparr>int_flags := int_flags (interrupts s1) OR 0x02\<rparr>\<rparr>
               else s1)
         else s\<lparr>graphics := (graphics s)\<lparr>gfx_stat := gfx_stat (graphics s) AND NOT 0x04\<rparr>\<rparr>)
      else s)"

definition updateScroll :: "GameBoy \<Rightarrow> GameBoy" where
  "updateScroll s = s\<lparr>graphics := (graphics s)\<lparr>gfx_scx := io s 0x43, gfx_scy := io s 0x42\<rparr>\<rparr>"

definition updateWindowPosition :: "GameBoy \<Rightarrow> GameBoy" where
  "updateWindowPosition s =
     s\<lparr>graphics := (graphics s)\<lparr>gfx_wx := io s 0x4B, gfx_wy := io s 0x4A\<rparr>\<rparr>"

definition updatePalettes :: "GameBoy \<Rightarrow> GameBoy" where
  "updatePalettes s =
     s\<lparr>graphics := (graphics s)\<lparr>gfx_bgp := io s 0x47, gfx_obp0 := io s 0x48,
                                  gfx_obp1 := io s 0x49\<rparr>\<rparr>"

text \<open>\<open>updateTileData\<close>, \<open>updateOAM\<close> and \<open>updateSerial\<close> have empty bodies in the source.\<close>

definition updateTileData :: "GameBoy \<Rightarrow> GameBoy" where
  "updateTileData s = s"

definition updateOAM :: "GameBoy \<Rightarrow> GameBoy" where
  "updateOAM s = s"

definition updateSerial :: "GameBoy \<Rightarrow> GameBoy" where
  "updateSerial s = s"

definition processDMA :: "GameBoy \<Rightarrow> GameBoy" where
  "processDMA s =
     (let source = push_bit 8 (ucast (io s 0x46) :: u16)
      in s\<lparr>dma := \<lparr>dma_active = True, dma_source = source, dma_destination = 0xFE00,
                    dma_length = 0xA0, dma_remaining = 0xA0\<rparr>\<rparr>)"

definition updateTimerControl :: "GameBoy \<Rightarrow> GameBoy" where
  "updateTimerControl s =
     s\<lparr>timerEnabled := (io s 0x07 AND 0x04 \<noteq> 0), timerClock := io s 0x07 AND 0x03\<rparr>"

definition updateInterruptFlags :: "GameBoy \<Rightarrow> GameBoy" where
  "updateInterruptFlags s = s\<lparr>interrupts := (interrupts s)\<lparr>int_flags := io s 0x0F AND 0x1F\<rparr>\<rparr>"

definition updateJoypad :: "GameBoy \<Rightarrow> GameBoy" where
  "updateJoypad s =
     (let joypad = io s 0x00;
          joypad' =
            (if joypad AND 0x10 = 0 then (joypad AND 0xF0) OR (in_buttons (input s) AND 0x0F)
             else if joypad AND 0x20 = 0
               then (joypad AND 0xF0) OR (in_directions (input s) AND 0x0F)
             else joypad)
      in s\<lparr>io := (io s)(0x00 := joypad')\<rparr>)"

definition set_io :: "u8 \<Rightarrow> u8 \<Rightarrow> GameBoy \<Rightarrow> GameBoy" where
  "set_io address v s = s\<lparr>io := (io s)(unat address := v)\<rparr>"

text \<open>\<open>writeIO\<close>: the \<open>switch\<close> on the register number, case by case.\<close>

definition writeIO :: "u8 \<Rightarrow> u8 \<Rightarrow> GameBoy \<Rightarrow> GameBoy" where
  "writeIO address v s =
     (if address = 0x00 then updateJoypad (set_io address v s)
      else if address = 0x01 then updateSerial (set_io address v s)
      else if address = 0x02 then updateSerial (set_io address v s)
      else if address = 0x04 then set_io address 0 s
      else if address = 0x05 then set_io address v s
      else if address = 0x06 then set_io address v s
      else if address = 0x07 then updateTimerControl (set_io address v s)
      else if address = 0x0F then updateInterruptFlags (set_io address v s)
      else if address = 0x40 then updateLCDControl (set_io address v s)
      else if address = 0x41 then
        updateLCDStatus (set_io address ((io s (unat address) AND 0x07) OR (v AND 0xF8)) s)
      else if address = 0x42 then updateScroll (set_io address v s)
      else if address = 0x43 then updateScroll (set_io address v s)
      else if address = 0x44 then set_io address 0 s
      else if address = 0x45 then updateLCDStatus (set_io address v s)
      else if address = 0x46 then processDMA (set_io address v s)
      else if address = 0x47 then updatePalettes (set_io address v s)
      else if address = 0x48 then updatePalettes (set_io address v s)
      else if address = 0x49 then updatePalettes (set_io address v s)
      else if address = 0x4A then updateWindowPosition (set_io address v s)
      else if address = 0x4B then updateWindowPosition (set_io address v s)
      else set_io address v s)"

function writeMemory16 :: "u16 \<Rightarrow> u8 \<Rightarrow> GameBoy \<Rightarrow> error + GameBoy" where
  "writeMemory16 address v s =
     (if address < 0x8000 then Inr s
      else if address < 0xA000 then
        Inr (updateTileData (s\<lparr>vram := (vram s)(unat (address - 0x8000) := v)\<rparr>))
      else if address < 0xC000 then
        (if ramEnabled s then
           (case vec_write (externalRam s) (unat (address - 0xA000)) v of
              Inl e \<Rightarrow> Inl e
            | Inr xs \<Rightarrow> Inr (s\<lparr>externalRam := xs\<rparr>))
         else Inr s)
      else if address < 0xD000 then
        Inr (s\<lparr>wramBank0 := (wramBank0 s)(unat (address - 0xC000) := v)\<rparr>)
      else if address < 0xE000 then
        (case vec_write (wramBankN s) (unat (address - 0xD000)) v of
           Inl e \<Rightarrow> Inl e
         | Inr xs \<Rightarrow> Inr (s\<lparr>wramBankN := xs\<rparr>))
      else if address < 0xFE00 then writeMemory16 (address - 0x2000) v s
      else if address < 0xFEA0 then
        Inr (updateOAM (s\<lparr>oam := (oam s)(unat (address - 0xFE00) := v)\<rparr>))
      else if address < 0xFF00 then Inr s
      else if address < 0xFF80 then Inr (writeIO (ucast (address - 0xFF00)) v s)
      else if address < 0xFFFF then
        Inr (s\<lparr>hram := (hram s)(unat (address - 0xFF80) := v)\<rparr>)
      else Inr (s\<lparr>interrupts := (interrupts s)\<lparr>int_enable := v\<rparr>\<rparr>))"
  by pat_completeness auto
termination
proof (relation "measure (\<lambda>(address, v, s). if 0xE000 \<le> address \<and> address < 0xFE00 then 1 else 0)")
  show "wf (measure (\<lambda>(address :: u16, v :: u8, s :: GameBoy).
              if 0xE000 \<le> address \<and> address < 0xFE00 then 1 else 0))"
    by simp
next
  fix address :: u16 and v :: u8 and s :: GameBoy
  assume "\<not> address < 0xE000" and "address < 0xFE00"
  then have "0xE000 \<le> unat address" and "unat address < 0xFE00"
    by (simp_all add: word_less_nat_alt)
  then have "unat (address - 0x2000) < 0xE000"
    by (simp add: unat_sub_if_size word_size)
  then have "\<not> 0xE000 \<le> address - 0x2000"
    by (simp add: word_le_nat_alt)
  then show "((address - 0x2000, v, s), (address, v, s))
       \<in> measure (\<lambda>(address, v, s). if 0xE000 \<le> address \<and> address < 0xFE00 then 1 else 0)"
    using \<open>\<not> address < 0xE000\<close> \<open>address < 0xFE00\<close> by (simp add: not_less)
qed

section \<open>The pixel pipeline state machine\<close>

text \<open>
  The layer renderers (\<open>findSpritesForScanline\<close>, \<open>renderBackground\<close>, \<open>renderWindow\<close>,
  \<open>renderSprites\<close>) work on the frame buffer and the sprite table, whose declarations
  (\<open>frameBuffer\<close>, \<open>sprites\<close>, \<open>spriteCount\<close>, \<open>Sprite\<close>) are in no file of the
  repository. They are parameters of the model, so what is proved about the state machine
  holds whatever they do.
\<close>

record Renderers =
  findSpritesForScanline :: "GameBoy \<Rightarrow> GameBoy"
  renderBackground :: "GameBoy \<Rightarrow> GameBoy"
  renderWindow :: "GameBoy \<Rightarrow> GameBoy"
  renderSprites :: "GameBoy \<Rightarrow> GameBoy"

definition renderScanline :: "Renderers \<Rightarrow> GameBoy \<Rightarrow> GameBoy" where
  "renderScanline R s =
     (if \<not> ppuEnabled s then s
      else if ppuMode s = OAM_SCAN then findSpritesForScanline R s
      else if ppuMode s = PIXEL_TRANSFER then
        (let s1 = (if ppuBackgroundEnabled s then renderBackground R s else s);
             s2 = (if ppuWindowEnabled s1 then renderWindow R s1 else s1);
             s3 = (if ppuSpritesEnabled s2 then renderSprites R s2 else s2)
         in s3)
      else s)"

text \<open>
  \<open>updatePPU\<close>: one invocation. The mode \<open>switch\<close> tests the counter, then
  \<open>updateLCDStatus\<close> runs and the counter is incremented, also in the invocation that
  has just reset it.
\<close>

definition updatePPU :: "Renderers \<Rightarrow> GameBoy \<Rightarrow> GameBoy" where
  "updatePPU R s =
     (if \<not> ppuEnabled s then s\<lparr>ppuMode := HBLANK\<rparr>
      else
        let s1 =
          (case ppuMode s of
             OAM_SCAN \<Rightarrow>
               (if ppuCycles s \<ge> 80 then s\<lparr>ppuMode := PIXEL_TRANSFER, ppuCycles := 0\<rparr>
                else s)
           | PIXEL_TRANSFER \<Rightarrow>
               (if ppuCycles s \<ge> 172
                then renderScanline R (s\<lparr>ppuMode := HBLANK, ppuCycles := 0\<rparr>)
                else s)
           | HBLANK \<Rightarrow>
               (if ppuCycles s \<ge> 204 then
                  let s' = s\<lparr>ppuCycles := 0,
                             graphics := (graphics s)\<lparr>gfx_ly := gfx_ly (graphics s) + 1\<rparr>\<rparr>
                  in (if gfx_ly (graphics s') = 144
                      then s'\<lparr>ppuMode := VBLANK,
                              interrupts := (interrupts s')
                                 \<lparr>int_flags := int_flags (interrupts s') OR 0x01\<rparr>\<rparr>
                      else s'\<lparr>ppuMode := OAM_SCAN\<rparr>)
                else s)
           | VBLANK \<Rightarrow>
               (if ppuCycles s \<ge> 456 then
                  let s' = s\<lparr>ppuCycles := 0,
                             graphics := (graphics s)\<lparr>gfx_ly := gfx_ly (graphics s) + 1\<rparr>\<rparr>
                  in (if gfx_ly (graphics s') > 153
                      then s'\<lparr>graphics := (graphics s')\<lparr>gfx_ly := 0\<rparr>, ppuMode := OAM_SCAN\<rparr>
                      else s')
                else s));
            s2 = updateLCDStatus s1
        in s2\<lparr>ppuCycles := ppuCycles s2 + 1\<rparr>)"

text \<open>\<open>n\<close> invocations in a row.\<close>

fun updatePPU_times :: "nat \<Rightarrow> Renderers \<Rightarrow> GameBoy \<Rightarrow> GameBoy" where
  "updatePPU_times 0 R s = s"
| "updatePPU_times (Suc n) R s = updatePPU_times n R (updatePPU R s)"

text \<open>
  What the scenarios observe of the pipeline: it is enabled, in mode \<open>m\<close>, with the per-mode
  counter at \<open>c\<close> and the scanline index at \<open>y\<close>.
\<close>

definition ppu_at :: "GameBoy \<Rightarrow> PPUMode \<Rightarrow> int \<Rightarrow> u8 \<Rightarrow> bool" where
  "ppu_at s m c y =
     (ppuEnabled s \<and> ppuMode s = m \<and> ppuCycles s = c \<and> gfx_ly (graphics s) = y)"

text \<open>Renderers that draw nothing, for the closed instances.\<close>

definition no_render :: Renderers where
  "no_render = \<lparr>findSpritesForScanline = (\<lambda>s. s), renderBackground = (\<lambda>s. s),
                renderWindow = (\<lambda>s. s), renderSprites = (\<lambda>s. s)\<rparr>"

section \<open>The CPU interpreter\<close>

subsection \<open>Further operations on the flags\<close>

definition dec :: "u8 \<Rightarrow> GameBoy \<Rightarrow> u8 \<times> GameBoy" where
  "dec v s =
     (let result = v - 1;
          s1 = setZeroFlag (result = 0) s;
          s2 = setSubtractFlag True s1;
          s3 = setHalfCarryFlag ((v AND 0x0F) = 0) s2
      in (result, s3))"

definition rlc :: "u8 \<Rightarrow> GameBoy \<Rightarrow> u8 \<times> GameBoy" where
  "rlc v s =
     (let result = push_bit 1 v OR drop_bit 7 v;
          s1 = setZeroFlag (result = 0) s;
          s2 = setSubtractFlag False s1;
          s3 = setHalfCarryFlag False s2;
          s4 = setCarryFlag (v AND 0x80 \<noteq> 0) s3
      in (result, s4))"

definition rrc :: "u8 \<Rightarrow> GameBoy \<Rightarrow> u8 \<times> GameBoy" where
  "rrc v s =
     (let result = drop_bit 1 v OR push_bit 7 v;
          s1 = setZeroFlag (result = 0) s;
          s2 = setSubtractFlag False s1;
          s3 = setHalfCarryFlag False s2;
          s4 = setCarryFlag (v AND 0x01 \<noteq> 0) s3
      in (result, s4))"

definition rl :: "u8 \<Rightarrow> GameBoy \<Rightarrow> u8 \<times> GameBoy" where
  "rl v s =
     (let result = push_bit 1 v OR (if getCarryFlag s then 1 else 0);
          s1 = setZeroFlag (result = 0) s;
          s2 = setSubtractFlag False s1;
          s3 = setHalfCarryFlag False s2;
          s4 = setCarryFlag (v AND 0x80 \<noteq> 0) s3
      in (result, s4))"

definition rr :: "u8 \<Rightarrow> GameBoy \<Rightarrow> u8 \<times> GameBoy" where
  "rr v s =
     (let result = drop_bit 1 v OR (if getCarryFlag s then 0x80 else 0);
          s1 = setZeroFlag (result = 0) s;
          s2 = setSubtractFlag False s1;
          s3 = setHalfCarryFlag False s2;
          s4 = setCarryFlag (v AND 0x01 \<noteq> 0) s3
      in (result, s4))"

subsection \<open>Register access\<close>

definition with_registers :: "(Registers \<Rightarrow> Registers) \<Rightarrow> GameBoy \<Rightarrow> GameBoy" where
  "with_registers g s = s\<lparr>registers := g (registers s)\<rparr>"

definition getA :: "GameBoy \<Rightarrow> u8" where "getA s = reg_a (registers s)"
definition getB :: "GameBoy \<Rightarrow> u8" where "getB s = reg_b (registers s)"
definition getC :: "GameBoy \<Rightarrow> u8" where "getC s = reg_c (registers s)"
definition getD :: "GameBoy \<Rightarrow> u8" where "getD s = reg_d (registers s)"
definition getE :: "GameBoy \<Rightarrow> u8" where "getE s = reg_e (registers s)"
definition getH :: "GameBoy \<Rightarrow> u8" where "getH s = reg_h (registers s)"
definition getL :: "GameBoy \<Rightarrow> u8" where "getL s = reg_l (registers s)"
definition getSP :: "GameBoy \<Rightarrow> u16" where "getSP s = reg_sp (registers s)"
definition getPC :: "GameBoy \<Rightarrow> u16" where "getPC s = reg_pc (registers s)"

definition set_A :: "u8 \<Rightarrow> GameBoy \<Rightarrow> GameBoy" where
  "set_A v = with_registers (\<lambda>r. r\<lparr>reg_a := v\<rparr>)"
definition set_B :: "u8 \<Rightarrow> GameBoy \<Rightarrow> GameBoy" where
  "set_B v = with_registers (\<lambda>r. r\<lparr>reg_b := v\<rparr>)"
definition set_C :: "u8 \<Rightarrow> GameBoy \<Rightarrow> GameBoy" where
  "set_C v = with_registers (\<lambda>r. r\<lparr>reg_c := v\<rparr>)"
definition set_D :: "u8 \<Rightarrow> GameBoy \<Rightarrow> GameBoy" where
  "set_D v = with_registers (\<lambda>r. r\<lparr>reg_d := v\<rparr>)"
definition set_E :: "u8 \<Rightarrow> GameBoy \<Rightarrow> GameBoy" where
  "set_E v = with_registers (\<lambda>r. r\<lparr>reg_e := v\<rparr>)"
definition set_H :: "u8 \<Rightarrow> GameBoy \<Rightarrow> GameBoy" where
  "set_H v = with_registers (\<lambda>r. r\<lparr>reg_h := v\<rparr>)"
definition set_L :: "u8 \<Rightarrow> GameBoy \<Rightarrow> GameBoy" where
  "set_L v = with_registers (\<lambda>r. r\<lparr>reg_l := v\<rparr>)"
definition set_SP :: "u16 \<Rightarrow> GameBoy \<Rightarrow> GameBoy" where
  "set_SP v = with_registers (\<lambda>r. r\<lparr>reg_sp := v\<rparr>)"
definition set_PC :: "u16 \<Rightarrow> GameBoy \<Rightarrow> GameBoy" where
  "set_PC v = with_registers (\<lambda>r. r\<lparr>reg_pc := v\<rparr>)"

text \<open>
  Modelled from the spec: the 16-bit members \<open>registers.bc\<close>, \<open>registers.de\<close> and
  \<open>registers.hl\<close> are read and assigned by the interpreter but declared in no header of
  the repository. The spec has the byte registers "pairable into 4 16-bit views (AF, BC, DE,
  HL)": the pair is the first register as high byte and the second as low byte, and
  assigning the pair assigns both.
\<close>

definition pair :: "u8 \<Rightarrow> u8 \<Rightarrow> u16" where
  "pair hi lo = push_bit 8 (ucast hi) OR ucast lo"

definition getBC :: "GameBoy \<Rightarrow> u16" where "getBC s = pair (getB s) (getC s)"
definition getDE :: "GameBoy \<Rightarrow> u16" where "getDE s = pair (getD s) (getE s)"
definition getHL :: "GameBoy \<Rightarrow> u16" where "getHL s = pair (getH s) (getL s)"

definition set_BC :: "u16 \<Rightarrow> GameBoy \<Rightarrow> GameBoy" where
  "set_BC v = with_registers (\<lambda>r. r\<lparr>reg_b := ucast (drop_bit 8 v), reg_c := ucast v\<rparr>)"
definition set_DE :: "u16 \<Rightarrow> GameBoy \<Rightarrow> GameBoy" where
  "set_DE v = with_registers (\<lambda>r. r\<lparr>reg_d := ucast (drop_bit 8 v), reg_e := ucast v\<rparr>)"
definition set_HL :: "u16 \<Rightarrow> GameBoy \<Rightarrow> GameBoy" where
  "set_HL v = with_registers (\<lambda>r. r\<lparr>reg_h := ucast (drop_bit 8 v), reg_l := ucast v\<rparr>)"

text \<open>\<open>daa\<close>, statement by statement; the second test of each branch sees the adjusted \<open>a\<close>.\<close>

definition daa :: "GameBoy \<Rightarrow> GameBoy" where
  "daa s =
     (let a0 = getA s;
          (a2, s2) =
            (if \<not> getSubtractFlag s then
               let (a1, s1) = (if getCarryFlag s \<or> a0 > 0x99
                               then (a0 + 0x60, setCarryFlag True s) else (a0, s));
                   a2 = (if getHalfCarryFlag s1 \<or> (a1 AND 0x0F) > 0x09
                         then a1 + 0x06 else a1)
               in (a2, s1)
             else
               let a1 = (if getCarryFlag s then a0 - 0x60 else a0);
                   a2 = (if getHalfCarryFlag s then a1 - 0x06 else a1)
               in (a2, s));
          s3 = setZeroFlag (a2 = 0) s2;
          s4 = setHalfCarryFlag False s3
      in set_A a2 s4)"

subsection \<open>Sequencing of fallible steps\<close>

definition bind_err :: "error + 'a \<Rightarrow> ('a \<Rightarrow> error + 'b) \<Rightarrow> error + 'b" where
  "bind_err m g = (case m of Inl e \<Rightarrow> Inl e | Inr x \<Rightarrow> g x)"

subsection \<open>The text written for an unknown opcode\<close>

text \<open>
  \<open>std::hex\<close> prints an \<open>int\<close> in lower-case hexadecimal with no padding.
\<close>

definition hex_digit :: "nat \<Rightarrow> char" where
  "hex_digit n = ''0123456789abcdef'' ! n"

fun hex_of_nat :: "nat \<Rightarrow> string" where
  "hex_of_nat n =
     (if n < 16 then [hex_digit n] else hex_of_nat (n div 16) @ [hex_digit (n mod 16)])"

definition unknown_opcode_text :: "u8 \<Rightarrow> string" where
  "unknown_opcode_text opcode = ''Unknown opcode: 0x'' @ hex_of_nat (unat opcode) @ [CHR 0x0A]"

subsection \<open>Instruction patterns\<close>

text \<open>
  \<open>readWord\<close> and \<open>writeWord\<close> are called by the interpreter but neither declared nor
  defined in the repository. They are parameters of the interpreter: \<open>rw\<close> reads a 16-bit
  value at an address, \<open>ww\<close> writes one.
\<close>

type_synonym readWord_t = "u16 \<Rightarrow> GameBoy \<Rightarrow> error + u16"
type_synonym writeWord_t = "u16 \<Rightarrow> u16 \<Rightarrow> GameBoy \<Rightarrow> error + GameBoy"

text \<open>\<open>r = readMemory(registers.pc++)\<close>: the operand byte, the counter moved past it.\<close>

definition ld_r_n :: "(u8 \<Rightarrow> GameBoy \<Rightarrow> GameBoy) \<Rightarrow> GameBoy \<Rightarrow> error + GameBoy" where
  "ld_r_n set_r s =
     bind_err (readMemory16 (getPC s) s) (\<lambda>v. Inr (set_r v (set_PC (getPC s + 1) s)))"

text \<open>\<open>rr = readWord(registers.pc); registers.pc += 2\<close>.\<close>

definition ld_rr_nn ::
  "readWord_t \<Rightarrow> (u16 \<Rightarrow> GameBoy \<Rightarrow> GameBoy) \<Rightarrow> GameBoy \<Rightarrow> error + GameBoy" where
  "ld_rr_nn rw set_rr s =
     bind_err (rw (getPC s) s) (\<lambda>v. let s1 = set_rr v s in Inr (set_PC (getPC s1 + 2) s1))"

text \<open>\<open>r = op(r)\<close> for \<open>inc\<close>, \<open>dec\<close> and the rotations.\<close>

definition apply_op ::
  "(u8 \<Rightarrow> GameBoy \<Rightarrow> u8 \<times> GameBoy) \<Rightarrow> (GameBoy \<Rightarrow> u8) \<Rightarrow> (u8 \<Rightarrow> GameBoy \<Rightarrow> GameBoy)
     \<Rightarrow> GameBoy \<Rightarrow> GameBoy" where
  "apply_op op get_r set_r s = (let (r, s1) = op (get_r s) s in set_r r s1)"

text \<open>\<open>writeMemory(registers.hl, op(readMemory(registers.hl)))\<close>.\<close>

definition apply_op_hl :: "(u8 \<Rightarrow> GameBoy \<Rightarrow> u8 \<times> GameBoy) \<Rightarrow> GameBoy \<Rightarrow> error + GameBoy" where
  "apply_op_hl op s =
     bind_err (readMemory16 (getHL s) s)
       (\<lambda>v. let (r, s1) = op v s in writeMemory16 (getHL s1) r s1)"

text \<open>\<open>registers.hl = add16(registers.hl, x)\<close>.\<close>

definition add_hl :: "u16 \<Rightarrow> GameBoy \<Rightarrow> GameBoy" where
  "add_hl x s = (let (r, s1) = add16 (getHL s) x s in set_HL r s1)"

text \<open>
  The relative jumps: taken, \<open>registers.pc += static_cast<int8_t>(readMemory(registers.pc)) + 1\<close>;
  not taken, \<open>registers.pc++\<close>.
\<close>

definition jr :: "bool \<Rightarrow> GameBoy \<Rightarrow> error + GameBoy" where
  "jr taken s =
     (if taken then
        bind_err (readMemory16 (getPC s) s) (\<lambda>v. Inr (set_PC (getPC s + scast v + 1) s))
      else Inr (set_PC (getPC s + 1) s))"

text \<open>\<open>r = readMemory(rr)\<close>.\<close>

definition ld_r_mem :: "(u8 \<Rightarrow> GameBoy \<Rightarrow> GameBoy) \<Rightarrow> u16 \<Rightarrow> GameBoy \<Rightarrow> error + GameBoy" where
  "ld_r_mem set_r address s = bind_err (readMemory16 address s) (\<lambda>v. Inr (set_r v s))"

subsection \<open>One instruction\<close>

text \<open>
  The cases of the \<open>switch\<close> in their order; an opcode with no case reaches \<open>default\<close>,
  which writes one line to \<open>std::cerr\<close>. Every bus access of the interpreter has a 16-bit
  argument and so calls the 16-bit accessors.
\<close>

definition execute :: "readWord_t \<Rightarrow> writeWord_t \<Rightarrow> u8 \<Rightarrow> GameBoy \<Rightarrow> error + GameBoy" where
  "execute rw ww opcode s =
     (if opcode = 0x00 then Inr s
      else if opcode = 0x01 then ld_rr_nn rw set_BC s
      else if opcode = 0x02 then writeMemory16 (getBC s) (getA s) s
      else if opcode = 0x03 then Inr (set_BC (getBC s + 1) s)
      else if opcode = 0x04 then Inr (apply_op inc getB set_B s)
      else if opcode = 0x05 then Inr (apply_op dec getB set_B s)
      else if opcode = 0x06 then ld_r_n set_B s
      else if opcode = 0x07 then Inr (apply_op rlc getA set_A s)
      else if opcode = 0x08 then
        bind_err (rw (getPC s) s)
          (\<lambda>address. bind_err (ww address (getSP s) s)
             (\<lambda>s1. Inr (set_PC (getPC s1 + 2) s1)))
      else if opcode = 0x09 then Inr (add_hl (getBC s) s)
      else if opcode = 0x0A then ld_r_mem set_A (getBC s) s
      else if opcode = 0x0B then Inr (set_BC (getBC s - 1) s)
      else if opcode = 0x0C then Inr (apply_op inc getC set_C s)
      else if opcode = 0x0D then Inr (apply_op dec getC set_C s)
      else if opcode = 0x0E then ld_r_n set_C s
      else if opcode = 0x0F then Inr (apply_op rrc getA set_A s)
      else if opcode = 0x10 then Inr s
      else if opcode = 0x11 then ld_rr_nn rw set_DE s
      else if opcode = 0x12 then writeMemory16 (getDE s) (getA s) s
      else if opcode = 0x13 then Inr (set_DE (getDE s + 1) s)
      else if opcode = 0x14 then Inr (apply_op inc getD set_D s)
      else if opcode = 0x15 then Inr (apply_op dec getD set_D s)
      else if opcode = 0x16 then ld_r_n set_D s
      else if opcode = 0x17 then Inr (apply_op rl getA set_A s)
      else if opcode = 0x18 then jr True s
      else if opcode = 0x19 then Inr (add_hl (getDE s) s)
      else if opcode = 0x1A then ld_r_mem set_A (getDE s) s
      else if opcode = 0x1B then Inr (set_DE (getDE s - 1) s)
      else if opcode = 0x1C then Inr (apply_op inc getE set_E s)
      else if opcode = 0x1D then Inr (apply_op dec getE set_E s)
      else if opcode = 0x1E then ld_r_n set_E s
      else if opcode = 0x1F then Inr (apply_op rr getA set_A s)
      else if opcode = 0x20 then jr (\<not> getZeroFlag s) s
      else if opcode = 0x21 then ld_rr_nn rw set_HL s
      else if opcode = 0x22 then writeMemory16 (getHL s) (getA s) (set_HL (getHL s + 1) s)
      else if opcode = 0x23 then Inr (set_HL (getHL s + 1) s)
      else if opcode = 0x24 then Inr (apply_op inc getH set_H s)
      else if opcode = 0x25 then Inr (apply_op dec getH set_H s)
      else if opcode = 0x26 then ld_r_n set_H s
      else if opcode = 0x27 then Inr (daa s)
      else if opcode = 0x28 then jr (getZeroFlag s) s
      else if opcode = 0x29 then Inr (add_hl (getHL s) s)
      else if opcode = 0x2A then ld_r_mem set_A (getHL s) (set_HL (getHL s + 1) s)
      else if opcode = 0x2B then Inr (set_HL (getHL s - 1) s)
      else if opcode = 0x2C then Inr (apply_op inc getL set_L s)
      else if opcode = 0x2D then Inr (apply_op dec getL set_L s)
      else if opcode = 0x2E then ld_r_n set_L s
      else if opcode = 0x2F then
        Inr (setHalfCarryFlag True (setSubtractFlag True (set_A (NOT (getA s)) s)))
      else if opcode = 0x30 then jr (\<not> getCarryFlag s) s
      else if opcode = 0x31 then ld_rr_nn rw set_SP s
      else if opcode = 0x32 then writeMemory16 (getHL s) (getA s) (set_HL (getHL s - 1) s)
      else if opcode = 0x33 then Inr (set_SP (getSP s + 1) s)
      else if opcode = 0x34 then apply_op_hl inc s
      else if opcode = 0x35 then apply_op_hl dec s
      else if opcode = 0x36 then
        bind_err (readMemory16 (getPC s) s)
          (\<lambda>v. let s1 = set_PC (getPC s + 1) s in writeMemory16 (getHL s1) v s1)
      else if opcode = 0x37 then
        Inr (setHalfCarryFlag False (setSubtractFlag False (setCarryFlag True s)))
      else if opcode = 0x38 then jr (getCarryFlag s) s
      else if opcode = 0x39 then Inr (add_hl (getSP s) s)
      else if opcode = 0x3A then ld_r_mem set_A (getHL s) (set_HL (getHL s - 1) s)
      else if opcode = 0x3B then Inr (set_SP (getSP s - 1) s)
      else if opcode = 0x3C then Inr (apply_op inc getA set_A s)
      else if opcode = 0x3D then Inr (apply_op dec getA set_A s)
      else if opcode = 0x3E then ld_r_n set_A s
      else if opcode = 0x3F then
        Inr (setHalfCarryFlag False (setSubtractFlag False (setCarryFlag (\<not> getCarryFlag s) s)))
      else if opcode = 0x40 then Inr (set_B (getB s) s)
      else if opcode = 0x41 then Inr (set_B (getC s) s)
      else if opcode = 0x42 then Inr (set_B (getD s) s)
      else if opcode = 0x43 then Inr (set_B (getE s) s)
      else if opcode = 0x44 then Inr (set_B (getH s) s)
      else if opcode = 0x45 then Inr (set_B (getL s) s)
      else if opcode = 0x46 then ld_r_mem set_B (getHL s) s
      else if opcode = 0x47 then Inr (set_B (getA s) s)
      else if opcode = 0x48 then Inr (set_C (getB s) s)
      else if opcode = 0x49 then Inr (set_C (getC s) s)
      else if opcode = 0x4A then Inr (set_C (getD s) s)
      else if opcode = 0x4B then Inr (set_C (getE s) s)
      else if opcode = 0x4C then Inr (set_C (getH s) s)
      else if opcode = 0x4D then Inr (set_C (getL s) s)
      else if opcode = 0x4E then ld_r_mem set_C (getHL s) s
      else if opcode = 0x4F then Inr (set_C (getA s) s)
      else Inr (s\<lparr>cerr := cerr s @ unknown_opcode_text opcode\<rparr>))"

text \<open>
  \<open>executeInstruction\<close>: fetch with \<open>readMemory(registers.pc++)\<close>, then the \<open>switch\<close>.
\<close>

definition executeInstruction :: "readWord_t \<Rightarrow> writeWord_t \<Rightarrow> GameBoy \<Rightarrow> error + GameBoy" where
  "executeInstruction rw ww s =
     bind_err (readMemory16 (getPC s) s)
       (\<lambda>opcode. execute rw ww opcode (set_PC (getPC s + 1) s))"

section \<open>The audio voice synthesizer\<close>

type_synonym i16 = "16 word"
type_synonym u64 = "64 word"

record Voice =
  volume :: u16
  pitch :: u16
  startAddr :: u32
  currentAddr :: u32
  adsr1 :: u16
  adsr2 :: u16
  adsrVolume :: u16
  keyOn :: bool
  keyOff :: bool

text \<open>
  The synthesizer object. The constructor gives it 24 voices (48 in PS2 mode) and 512 KiB
  of sample RAM (twice that in PS2 mode). \<open>audioBuffer\<close> holds \<open>int16_t\<close> samples, read
  through \<open>sint\<close>.
\<close>

record SPU =
  voices :: "Voice list"
  spuRam :: "u8 list"
  audioBuffer :: "i16 list"
  mainVolume :: u16
  reverbVolume :: u16
  transferAddress :: u32
  reverbEnabled :: bool
  irqEnabled :: bool
  transferMode :: bool
  isPS2Mode :: bool

text \<open>
  \<open>updateADSR\<close>. The source passes an \<open>int\<close> and an \<open>unsigned\<close> literal (\<open>0x7FFFu\<close>, \<open>0u\<close>)
  to \<open>std::min\<close> and \<open>std::max\<close>; both arguments are taken at the type of the literal,
  \<open>unsigned\<close>, as the usual arithmetic conversions do, and the result is stored in the
  16-bit \<open>adsrVolume\<close>. In the attack the sum is at most \<open>0xFFFF + 0xFF\<close> and nothing wraps.
  In the release a difference below zero wraps at 32 bits, so the maximum with \<open>0u\<close> does
  not clamp it.
\<close>

definition updateADSR :: "Voice \<Rightarrow> Voice" where
  "updateADSR v =
     (if keyOn v then
        v\<lparr>adsrVolume :=
             ucast (min ((ucast (adsrVolume v) :: u32) + ucast (drop_bit 8 (adsr1 v))) 0x7FFF)\<rparr>
      else if keyOff v then
        v\<lparr>adsrVolume :=
             ucast (max ((ucast (adsrVolume v) :: u32) - ucast (adsr2 v AND 0xFF)) 0)\<rparr>
      else v)"

text \<open>
  \<open>(int32_t(sample) * factor) >> 15\<close> stored in an \<open>int16_t\<close>: the product fits 32 bits, the
  shift of a signed value is arithmetic (the floor of the division), the store keeps the
  low 16 bits.
\<close>

definition scale :: "i16 \<Rightarrow> u16 \<Rightarrow> i16" where
  "scale sample factor = word_of_int (sint sample * uint factor div 2 ^ 15)"

text \<open>
  \<open>processVoice\<close>. The index into \<open>spuRam\<close> is \<open>currentAddr & (spuRam.size() - 1)\<close>, computed
  at the width of \<open>size_t\<close>; the two bytes are read without a bounds check.
\<close>

definition processVoice :: "nat \<Rightarrow> SPU \<Rightarrow> error + SPU" where
  "processVoice voiceIndex s =
     (if voiceIndex \<ge> length (voices s) then Inr s
      else
        let voice = updateADSR (voices s ! voiceIndex);
            addr = unat ((ucast (currentAddr voice) :: u64) AND (of_nat (length (spuRam s)) - 1))
        in bind_err (vec_read (spuRam s) (addr + 1)) (\<lambda>hi.
           bind_err (vec_read (spuRam s) addr) (\<lambda>lo.
             let sample0 = (push_bit 8 (ucast hi) OR ucast lo :: i16);
                 sample1 = scale sample0 (adsrVolume voice);
                 sample2 = scale sample1 (volume voice);
                 voice' = voice\<lparr>currentAddr :=
                            currentAddr voice + ucast (drop_bit 8 (pitch voice)) * 2\<rparr>
             in Inr (s\<lparr>voices := (voices s)[voiceIndex := voice'],
                       audioBuffer := audioBuffer s @ [sample2]\<rparr>))))"

definition mixOutput :: "SPU \<Rightarrow> SPU" where
  "mixOutput s =
     (if audioBuffer s = [] then s
      else s\<lparr>audioBuffer := map (\<lambda>sample. scale sample (mainVolume s)) (audioBuffer s)\<rparr>)"

definition processReverb :: "SPU \<Rightarrow> SPU" where
  "processReverb s =
     (if \<not> reverbEnabled s \<or> audioBuffer s = [] then s
      else
        let reverbBuffer = audioBuffer s
        in s\<lparr>audioBuffer :=
               map (\<lambda>i. if i \<ge> 2048
                         then audioBuffer s ! i + scale (reverbBuffer ! (i - 2048)) (reverbVolume s)
                         else audioBuffer s ! i)
                   [0 ..< length (audioBuffer s)]\<rparr>)"

text \<open>\<open>checkIRQ\<close> has no effect in the source: its body after the test is a comment.\<close>

definition checkIRQ :: "SPU \<Rightarrow> SPU" where
  "checkIRQ s = s"

text \<open>
  The voice loop of \<open>step\<close>, over the indices in ascending order: only a voice whose
  \<open>keyOn\<close> is set is processed. (The index is a \<open>uint8_t\<close>; the voice counts of the
  constructor, 24 and 48, are below 256.)
\<close>

fun process_voices :: "nat list \<Rightarrow> SPU \<Rightarrow> error + SPU" where
  "process_voices [] s = Inr s"
| "process_voices (i # rest) s =
     (if keyOn (voices s ! i) then bind_err (processVoice i s) (process_voices rest)
      else process_voices rest s)"

definition step :: "SPU \<Rightarrow> error + SPU" where
  "step s =
     bind_err (process_voices [0 ..< length (voices s)] s) (\<lambda>s1.
       let s2 = mixOutput s1;
           s3 = (if reverbEnabled s2 then processReverb s2 else s2)
       in Inr (checkIRQ s3))"

text \<open>\<open>n\<close> ticks in a row, stopping at the first that fails.\<close>

fun step_times :: "nat \<Rightarrow> SPU \<Rightarrow> error + SPU" where
  "step_times 0 s = Inr s"
| "step_times (Suc n) s = bind_err (step s) (step_times n)"

section \<open>Concrete inputs\<close>

text \<open>
  A concrete machine for the closed instances of the theorems: every byte and every
  register zero, every latch clear, the vector regions allocated at the size of their
  address window.
\<close>

definition blank_machine :: GameBoy where
  "blank_machine =
     \<lparr>memory = (\<lambda>_. 0), cartridgeROM = [],
      registers = \<lparr>reg_a = 0, reg_f = 0, reg_b = 0, reg_c = 0, reg_d = 0, reg_e = 0,
                   reg_h = 0, reg_l = 0, reg_sp = 0, reg_pc = 0\<rparr>,
      gpu = \<lparr>gpu_lcdc = 0, gpu_stat = 0, gpu_ly = 0\<rparr>,
      romBank0 = (\<lambda>_. 0), romBankN = replicate 0x4000 0,
      vram = (\<lambda>_. 0), externalRam = replicate 0x2000 0,
      wramBank0 = (\<lambda>_. 0), wramBankN = replicate 0x1000 0,
      oam = (\<lambda>_. 0), io = (\<lambda>_. 0), hram = (\<lambda>_. 0),
      ramEnabled = False,
      ppuMode = OAM_SCAN, ppuCycles = 0, ppuEnabled = True,
      ppuWindowEnabled = False, ppuSpritesEnabled = False, ppuBackgroundEnabled = False,
      graphics = \<lparr>gfx_ly = 0, gfx_lyc = 0, gfx_stat = 0, gfx_scx = 0, gfx_scy = 0,
                  gfx_wx = 0, gfx_wy = 0, gfx_bgp = 0, gfx_obp0 = 0, gfx_obp1 = 0\<rparr>,
      interrupts = \<lparr>int_flags = 0, int_enable = 0\<rparr>,
      dma = \<lparr>dma_active = False, dma_source = 0, dma_destination = 0, dma_length = 0,
             dma_remaining = 0\<rparr>,
      timerEnabled = False, timerClock = 0,
      input = \<lparr>in_buttons = 0, in_directions = 0\<rparr>,
      cerr = []\<rparr>"

text \<open>A smallest valid cartridge image: \<open>0x150\<close> bytes with the logo at \<open>0x104\<close>.\<close>

definition test_rom :: "u8 list" where
  "test_rom = replicate 0x104 0xFF @ NINTENDO_LOGO @ replicate 0x3C 0xFF"

text \<open>
  For the closed instances of the interpreter: stand-ins for the absent \<open>readWord\<close> and
  \<open>writeWord\<close> (the \<open>default\<close> case calls neither), and a machine whose ROM bank 0 holds
  the byte \<open>0xD3\<close>, which has no case in the \<open>switch\<close>, at every address, with the program
  counter at \<open>pc\<close>.
\<close>

definition no_readWord :: readWord_t where
  "no_readWord address s = Inl OutOfBounds"

definition no_writeWord :: writeWord_t where
  "no_writeWord address v s = Inl OutOfBounds"

definition unknown_opcode_machine :: "u16 \<Rightarrow> GameBoy" where
  "unknown_opcode_machine pc =
     blank_machine\<lparr>romBank0 := (\<lambda>_. 0xD3),
                   registers := (registers blank_machine)\<lparr>reg_pc := pc\<rparr>\<rparr>"

text \<open>
  A concrete synthesizer as the PS1 constructor builds it (24 silent voices, 512 KiB of
  zeroed sample RAM, main volume \<open>0x3FFF\<close>), with voice 0 then keyed off from full scale:
  \<open>keyOn\<close> clear, \<open>keyOff\<close> set, amplitude \<open>0x7FFF\<close>, release rate \<open>0xFF\<close>.
\<close>

definition silent_voice :: Voice where
  "silent_voice =
     \<lparr>volume = 0, pitch = 0, startAddr = 0, currentAddr = 0, adsr1 = 0, adsr2 = 0,
      adsrVolume = 0, keyOn = False, keyOff = False\<rparr>"

definition released_voice :: Voice where
  "released_voice = silent_voice\<lparr>adsr2 := 0x00FF, adsrVolume := 0x7FFF, keyOff := True\<rparr>"

definition released_spu :: SPU where
  "released_spu =
     \<lparr>voices = released_voice # replicate 23 silent_voice,
      spuRam = replicate (512 * 1024) 0,
      audioBuffer = [],
      mainVolume = 0x3FFF, reverbVolume = 0, transferAddress = 0,
      reverbEnabled = False, irqEnabled = False, transferMode = False, isPS2Mode = False\<rparr>"


text \<open>
  The machine at the start of a scanline as the pipeline itself leaves it: the counter is
  1 after the invocation that entered \<open>OAM_SCAN\<close>.
\<close>

definition scanline_start_machine :: GameBoy where
  "scanline_start_machine = blank_machine\<lparr>ppuCycles := 1\<rparr>"

section \<open>Properties of the flag accessors\<close>

lemma mask_bit: "(w AND (2 ^ n) \<noteq> 0) = bit (w :: u8) n"
  by (simp add: and_exp_eq_0_iff_not_bit)

lemma getFlag_bits:
  "getFlag 0x80 s = bit (reg_f (registers s)) 7"
  "getFlag 0x40 s = bit (reg_f (registers s)) 6"
  "getFlag 0x20 s = bit (reg_f (registers s)) 5"
  "getFlag 0x10 s = bit (reg_f (registers s)) 4"
  using mask_bit [of "reg_f (registers s)" 7] mask_bit [of "reg_f (registers s)" 6]
    mask_bit [of "reg_f (registers s)" 5] mask_bit [of "reg_f (registers s)" 4]
  by (simp_all add: getFlag_def)

lemma reg_f_setFlag:
  "reg_f (registers (setFlag m v s)) =
     (if v then reg_f (registers s) OR m else reg_f (registers s) AND NOT m) AND 0xF0"
  by (simp add: setFlag_def)

lemmas flag_defs = getZeroFlag_def getSubtractFlag_def getHalfCarryFlag_def getCarryFlag_def
  setZeroFlag_def setSubtractFlag_def setHalfCarryFlag_def setCarryFlag_def

lemma get_set_same:
  "getZeroFlag (setZeroFlag v s) = v"
  "getSubtractFlag (setSubtractFlag v s) = v"
  "getHalfCarryFlag (setHalfCarryFlag v s) = v"
  "getCarryFlag (setCarryFlag v s) = v"
  by (simp_all add: flag_defs getFlag_bits reg_f_setFlag bit_and_iff bit_or_iff bit_not_iff)

lemma get_set_other:
  "getZeroFlag (setSubtractFlag v s) = getZeroFlag s"
  "getZeroFlag (setHalfCarryFlag v s) = getZeroFlag s"
  "getZeroFlag (setCarryFlag v s) = getZeroFlag s"
  "getSubtractFlag (setZeroFlag v s) = getSubtractFlag s"
  "getSubtractFlag (setHalfCarryFlag v s) = getSubtractFlag s"
  "getSubtractFlag (setCarryFlag v s) = getSubtractFlag s"
  "getHalfCarryFlag (setZeroFlag v s) = getHalfCarryFlag s"
  "getHalfCarryFlag (setSubtractFlag v s) = getHalfCarryFlag s"
  "getHalfCarryFlag (setCarryFlag v s) = getHalfCarryFlag s"
  "getCarryFlag (setZeroFlag v s) = getCarryFlag s"
  "getCarryFlag (setSubtractFlag v s) = getCarryFlag s"
  "getCarryFlag (setHalfCarryFlag v s) = getCarryFlag s"
  by (simp_all add: flag_defs getFlag_bits reg_f_setFlag bit_and_iff bit_or_iff bit_not_iff)

section \<open>8-bit increment\<close>

text \<open>
  C3. For every 8-bit operand \<open>v\<close> and every machine, \<open>inc\<close> returns \<open>v + 1\<close> modulo 256;
  afterwards the half-carry flag says whether the low nibble of the operand was \<open>0xF\<close>, the
  zero flag says whether the result is 0, the subtract flag is clear, and the carry flag
  has the value it had before.
\<close>

theorem inc_flags:
  "fst (inc v s) = v + 1
   \<and> unat (fst (inc v s)) = (unat v + 1) mod 256
   \<and> getHalfCarryFlag (snd (inc v s)) = ((v AND 0x0F) = 0x0F)
   \<and> getZeroFlag (snd (inc v s)) = (fst (inc v s) = 0)
   \<and> getSubtractFlag (snd (inc v s)) = False
   \<and> getCarryFlag (snd (inc v s)) = getCarryFlag s"
  by (simp add: inc_def Let_def get_set_same get_set_other unat_word_ariths)

section \<open>16-bit addition\<close>

lemma unat_u16_bound: "unat (x::u16) < 65536"
  using unsigned_less [of x, where 'a = nat] by simp

lemma unat_up: "unat (ucast (x::u16) :: u32) = unat x"
proof -
  have "unat x < 2 ^ 32" using unat_u16_bound [of x] by simp
  then show ?thesis by (simp add: unsigned_ucast_eq take_bit_nat_eq_self)
qed

lemma unat_sum32: "unat ((ucast (x::u16) :: u32) + ucast (y::u16)) = unat x + unat y"
proof -
  have "unat x + unat y < 2 ^ 32"
    using unat_u16_bound [of x] unat_u16_bound [of y] by simp
  then show ?thesis
    by (simp add: unat_word_ariths unat_up)
qed

lemma gt32: "((ucast (x::u16) :: u32) + ucast (y::u16) > k) = (unat x + unat y > unat k)"
  by (simp add: word_less_nat_alt unat_sum32)

lemma low16: "(ucast ((ucast (x::u16) :: u32) + ucast (y::u16)) :: u16) = x + y"
proof -
  have "unat (ucast ((ucast x :: u32) + ucast y) :: u16)
          = unat ((ucast x :: u32) + ucast y) mod 65536"
    by (simp add: unsigned_ucast_eq take_bit_eq_mod)
  also have "\<dots> = (unat x + unat y) mod 65536"
    by (simp only: unat_sum32)
  also have "\<dots> = unat (x + y)"
    by (simp add: unat_word_ariths)
  finally show ?thesis by (simp add: word_unat_eq_iff)
qed

text \<open>
  C4. For every pair of 16-bit operands, \<open>add16\<close> returns their sum modulo \<open>2^16\<close>; afterwards
  the carry flag says whether the true sum exceeds \<open>0xFFFF\<close>, the half-carry flag says
  whether the sum of the low 12 bits of the operands exceeds \<open>0x0FFF\<close> (the carry out of
  bit 11), and the subtract flag is clear.
\<close>

theorem add16_flags:
  "fst (add16 x y s) = x + y
   \<and> unat (fst (add16 x y s)) = (unat x + unat y) mod 2 ^ 16
   \<and> getCarryFlag (snd (add16 x y s)) = (unat x + unat y > 0xFFFF)
   \<and> getHalfCarryFlag (snd (add16 x y s))
       = (unat (x AND 0x0FFF) + unat (y AND 0x0FFF) > 0x0FFF)
   \<and> getSubtractFlag (snd (add16 x y s)) = False"
  by (simp add: add16_def Let_def get_set_same get_set_other low16 gt32 unat_word_ariths)

section \<open>Reset\<close>

text \<open>
  C9. \<open>reset\<close> is idempotent: from every machine, two resets in a row give exactly the
  machine that one reset gives (memory image, CPU registers, GPU registers, the retained
  cartridge data and every other component).
\<close>

theorem reset_idempotent: "reset (reset s) = reset s"
  by (simp add: reset_def initializeRegisters_def)

lemma memory_reset: "memory (reset s) = (\<lambda>_. 0)"
  by (simp add: reset_def initializeRegisters_def)

lemma cartridgeROM_reset: "cartridgeROM (reset s) = cartridgeROM s"
  by (simp add: reset_def initializeRegisters_def)

lemma validate_test_rom: "validateROM test_rom"
  by (simp add: validateROM_def test_rom_def NINTENDO_LOGO_def)

text \<open>
  C10. After \<open>reset\<close> the 32-bit read returns 0 at every address below \<open>0x10000\<close>, also
  when a valid ROM was loaded before: the load succeeds, the reset keeps the cartridge
  data in \<open>cartridgeROM\<close>, and the memory image is zero all the same (the copy of the ROM
  is not restored).
\<close>

theorem reset_zero_fills:
  assumes "validateROM data" and "a < 0x10000"
  shows "fst (loadROM data s)
         \<and> cartridgeROM (reset (snd (loadROM data s))) = data
         \<and> readMemory32 a (reset (snd (loadROM data s))) = Inr 0
         \<and> readMemory32 a (reset s) = Inr 0"
  using assms
  by (simp add: loadROM_def Let_def readMemory32_def memory_reset cartridgeROM_reset not_le)

theorem reset_zero_fills_witness:
  "validateROM test_rom \<and> (0x104 :: u32) < 0x10000
   \<and> readMemory32 0x104 (snd (loadROM test_rom blank_machine)) = Inr 0xCE
   \<and> cartridgeROM (reset (snd (loadROM test_rom blank_machine))) = test_rom
   \<and> readMemory32 0x104 (reset (snd (loadROM test_rom blank_machine))) = Inr 0"
proof -
  have v: "validateROM test_rom" by (rule validate_test_rom)
  have a: "(0x104 :: u32) < 0x10000" by simp
  have before: "readMemory32 0x104 (snd (loadROM test_rom blank_machine)) = Inr 0xCE"
    by (simp add: loadROM_def v Let_def readMemory32_def)
       (simp add: test_rom_def NINTENDO_LOGO_def nth_append)
  show ?thesis
    using reset_zero_fills [OF v a, of blank_machine] v a before by simp
qed

section \<open>The banked bus: ROM writes and the echo region\<close>

declare readMemory16.simps [simp del] writeMemory16.simps [simp del]

text \<open>
  C6. For every address \<open>a\<close> below \<open>0x8000\<close> and every byte, the 16-bit write leaves the
  machine as it was; so for every address \<open>b\<close> below \<open>0x8000\<close> the read after the write
  returns what the read before it returned.
\<close>

theorem rom_write_discarded:
  assumes "a < 0x8000" and "b < 0x8000"
  shows "writeMemory16 a v s = Inr s
         \<and> (\<exists>s'. writeMemory16 a v s = Inr s' \<and> readMemory16 b s' = readMemory16 b s)"
  using assms by (simp add: writeMemory16.simps)

theorem rom_write_discarded_witness:
  "(0x0150 :: u16) < 0x8000 \<and> (0x4150 :: u16) < 0x8000
   \<and> writeMemory16 0x0150 0xAB blank_machine = Inr blank_machine
   \<and> (\<exists>s'. writeMemory16 0x0150 0xAB blank_machine = Inr s'
            \<and> readMemory16 0x4150 s' = readMemory16 0x4150 blank_machine)"
  using rom_write_discarded [of "0x0150" "0x4150" "0xAB" blank_machine] by simp









section \<open>Loading a saved state from a short stream\<close>

lemma le16_split: "le16 (ucast w) (ucast (drop_bit 8 w)) = (w :: u16)"
  by (rule bit_word_eqI)
     (auto simp add: le16_def bit_or_iff bit_push_bit_iff bit_ucast_iff bit_drop_bit_eq)

lemma Registers_roundtrip: "Registers_of_bytes (Registers_bytes r) = r"
  by (simp add: Registers_of_bytes_def Registers_bytes_def le16_split)

lemma Gpu_roundtrip: "Gpu_of_bytes (Gpu_bytes g) = g"
  by (simp add: Gpu_of_bytes_def Gpu_bytes_def)

lemma overlay_Nil: "overlay [] old = old"
  by (simp add: overlay_def)

lemma istream_read_failed: "istream_read n \<lparr>is_bytes = [], is_good = False\<rparr>
                            = ([], \<lparr>is_bytes = [], is_good = False\<rparr>)"
  by (simp add: istream_read_def)

lemma istream_read_short:
  "length bs < n \<Longrightarrow> istream_read n \<lparr>is_bytes = bs, is_good = True\<rparr>
                       = (bs, \<lparr>is_bytes = [], is_good = False\<rparr>)"
  by (simp add: istream_read_def)

lemma loadState_short:
  assumes "length bytes < 0x10000"
  shows "loadState (Some bytes) s = (True, s\<lparr>memory := store_memory bytes (memory s)\<rparr>)"
  using assms
  by (simp add: loadState_def Let_def istream_read_short istream_read_failed overlay_Nil
      Registers_roundtrip Gpu_roundtrip)

text \<open>
  C2, as the code has it. \<open>loadState\<close> reports failure only when the file cannot be
  opened, and the machine is then unchanged. On every stream that opens, truncated or
  not, it returns true. When the stream holds fewer than \<open>0x10000\<close> bytes, those bytes
  overwrite the front of the memory image; the rest of the memory image, the CPU registers
  and the GPU registers keep their values.
\<close>

theorem loadState_unchecked:
  "loadState None s = (False, s)
   \<and> fst (loadState (Some bytes) s) = True
   \<and> (length bytes < 0x10000 \<longrightarrow>
        snd (loadState (Some bytes) s) = s\<lparr>memory := store_memory bytes (memory s)\<rparr>)"
proof (intro conjI impI)
  show "loadState None s = (False, s)"
    by (simp add: loadState_def)
  show "fst (loadState (Some bytes) s) = True"
    by (simp add: loadState_def Let_def split: prod.splits)
  show "snd (loadState (Some bytes) s) = s\<lparr>memory := store_memory bytes (memory s)\<rparr>"
    if "length bytes < 0x10000"
    using loadState_short [OF that, of s] by simp
qed

theorem loadState_unchecked_witness:
  "length [0xFF :: u8] < 0x10000
   \<and> loadState None blank_machine = (False, blank_machine)
   \<and> fst (loadState (Some [0xFF]) blank_machine) = True
   \<and> snd (loadState (Some [0xFF]) blank_machine)
       = blank_machine\<lparr>memory := store_memory [0xFF] (memory blank_machine)\<rparr>"
  using loadState_unchecked [of blank_machine "[0xFF]"] by simp

text \<open>
  The claim as stated fails on a one-byte stream: the load returns true and byte 0 of
  the memory image, 0 before, is \<open>0xFF\<close> afterwards.
\<close>

theorem loadState_truncated_counterexample:
  "fst (loadState (Some [0xFF]) blank_machine) = True
   \<and> memory blank_machine 0 = 0
   \<and> memory (snd (loadState (Some [0xFF]) blank_machine)) 0 = 0xFF"
proof -
  have short: "length [0xFF :: u8] < 0x10000" by simp
  have "loadState (Some [0xFF]) blank_machine
        = (True, blank_machine\<lparr>memory := store_memory [0xFF] (memory blank_machine)\<rparr>)"
    by (rule loadState_short [OF short])
  then show ?thesis
    by (simp add: store_memory_def blank_machine_def)
qed

section \<open>The first scanline of the pixel pipeline\<close>

lemma updateLCDStatus_keeps:
  "ppuEnabled (updateLCDStatus s) = ppuEnabled s"
  "ppuMode (updateLCDStatus s) = ppuMode s"
  "ppuCycles (updateLCDStatus s) = ppuCycles s"
  "gfx_ly (graphics (updateLCDStatus s)) = gfx_ly (graphics s)"
  by (simp_all add: updateLCDStatus_def Let_def)

lemma int_flags_updateLCDStatus:
  "bit (int_flags (interrupts s)) 0 \<Longrightarrow> bit (int_flags (interrupts (updateLCDStatus s))) 0"
  by (simp add: updateLCDStatus_def Let_def bit_or_iff)

lemma oam_stay:
  "ppu_at s OAM_SCAN c y \<Longrightarrow> c < 80 \<Longrightarrow> ppu_at (updatePPU R s) OAM_SCAN (c + 1) y"
  by (simp add: ppu_at_def updatePPU_def Let_def updateLCDStatus_keeps)

lemma oam_leave:
  "ppu_at s OAM_SCAN c y \<Longrightarrow> 80 \<le> c \<Longrightarrow> ppu_at (updatePPU R s) PIXEL_TRANSFER 1 y"
  by (simp add: ppu_at_def updatePPU_def Let_def updateLCDStatus_keeps)

lemma transfer_stay:
  "ppu_at s PIXEL_TRANSFER c y \<Longrightarrow> c < 172 \<Longrightarrow> ppu_at (updatePPU R s) PIXEL_TRANSFER (c + 1) y"
  by (simp add: ppu_at_def updatePPU_def Let_def updateLCDStatus_keeps)

text \<open>
  \<open>renderScanline\<close> is called after the mode has been set to \<open>HBLANK\<close>, so neither of its
  branches is taken.
\<close>

lemma renderScanline_hblank: "ppuMode s = HBLANK \<Longrightarrow> renderScanline R s = s"
  by (simp add: renderScanline_def)

lemma transfer_leave:
  "ppu_at s PIXEL_TRANSFER c y \<Longrightarrow> 172 \<le> c \<Longrightarrow> ppu_at (updatePPU R s) HBLANK 1 y"
  by (simp add: ppu_at_def updatePPU_def Let_def updateLCDStatus_keeps renderScanline_hblank)

lemma hblank_stay:
  "ppu_at s HBLANK c y \<Longrightarrow> c < 204 \<Longrightarrow> ppu_at (updatePPU R s) HBLANK (c + 1) y"
  by (simp add: ppu_at_def updatePPU_def Let_def updateLCDStatus_keeps)

lemma hblank_leave:
  "ppu_at s HBLANK c y \<Longrightarrow> 204 \<le> c \<Longrightarrow> y + 1 \<noteq> 144
   \<Longrightarrow> ppu_at (updatePPU R s) OAM_SCAN 1 (y + 1)"
  by (simp add: ppu_at_def updatePPU_def Let_def updateLCDStatus_keeps)

lemma hblank_to_vblank:
  "ppu_at s HBLANK c 143 \<Longrightarrow> 204 \<le> c
   \<Longrightarrow> ppu_at (updatePPU R s) VBLANK 1 144
       \<and> bit (int_flags (interrupts (updatePPU R s))) 0"
  by (simp add: ppu_at_def updatePPU_def Let_def updateLCDStatus_keeps
      int_flags_updateLCDStatus bit_or_iff)

lemma updatePPU_times_add:
  "updatePPU_times (m + n) R s = updatePPU_times n R (updatePPU_times m R s)"
  by (induction m arbitrary: s) simp_all

lemma oam_run:
  "ppu_at s OAM_SCAN c y \<Longrightarrow> c + int k \<le> 80
   \<Longrightarrow> ppu_at (updatePPU_times k R s) OAM_SCAN (c + int k) y"
proof (induction k arbitrary: s c)
  case 0
  then show ?case by simp
next
  case (Suc k)
  have "ppu_at (updatePPU R s) OAM_SCAN (c + 1) y"
    using Suc.prems by (intro oam_stay) simp_all
  then have "ppu_at (updatePPU_times k R (updatePPU R s)) OAM_SCAN (c + 1 + int k) y"
    using Suc.prems by (intro Suc.IH) simp_all
  then show ?case by (simp add: add.commute add.left_commute)
qed

lemma transfer_run:
  "ppu_at s PIXEL_TRANSFER c y \<Longrightarrow> c + int k \<le> 172
   \<Longrightarrow> ppu_at (updatePPU_times k R s) PIXEL_TRANSFER (c + int k) y"
proof (induction k arbitrary: s c)
  case 0
  then show ?case by simp
next
  case (Suc k)
  have "ppu_at (updatePPU R s) PIXEL_TRANSFER (c + 1) y"
    using Suc.prems by (intro transfer_stay) simp_all
  then have "ppu_at (updatePPU_times k R (updatePPU R s)) PIXEL_TRANSFER (c + 1 + int k) y"
    using Suc.prems by (intro Suc.IH) simp_all
  then show ?case by (simp add: add.commute add.left_commute)
qed

lemma hblank_run:
  "ppu_at s HBLANK c y \<Longrightarrow> c + int k \<le> 204
   \<Longrightarrow> ppu_at (updatePPU_times k R s) HBLANK (c + int k) y"
proof (induction k arbitrary: s c)
  case 0
  then show ?case by simp
next
  case (Suc k)
  have "ppu_at (updatePPU R s) HBLANK (c + 1) y"
    using Suc.prems by (intro hblank_stay) simp_all
  then have "ppu_at (updatePPU_times k R (updatePPU R s)) HBLANK (c + 1 + int k) y"
    using Suc.prems by (intro Suc.IH) simp_all
  then show ?case by (simp add: add.commute add.left_commute)
qed

lemma times_Suc_end: "updatePPU_times (Suc n) R s = updatePPU R (updatePPU_times n R s)"
  using updatePPU_times_add [of n 1 R s] by simp

lemma vblank_wrap:
  "ppu_at s VBLANK c 153 \<Longrightarrow> 456 \<le> c \<Longrightarrow> ppu_at (updatePPU R s) OAM_SCAN 1 0"
  by (simp add: ppu_at_def updatePPU_def Let_def updateLCDStatus_keeps)

text \<open>
  A scanline begun at counter 1 takes exactly 456 invocations, whatever its index below
  the last visible one.
\<close>

lemma ppu_later_scanline:
  assumes start: "ppu_at s OAM_SCAN 1 y" and visible: "y + 1 \<noteq> 144"
  shows "ppu_at (updatePPU_times 456 R s) OAM_SCAN 1 (y + 1)"
proof -
  have a79: "ppu_at (updatePPU_times 79 R s) OAM_SCAN 80 y"
    using oam_run [OF start, of 79 R] by simp
  have a80: "ppu_at (updatePPU_times 80 R s) PIXEL_TRANSFER 1 y"
    using oam_leave [OF a79, of R] times_Suc_end [of 79 R s] by simp
  have a251: "ppu_at (updatePPU_times 251 R s) PIXEL_TRANSFER 172 y"
    using transfer_run [OF a80, of 171 R] updatePPU_times_add [of 80 171 R s] by simp
  have a252: "ppu_at (updatePPU_times 252 R s) HBLANK 1 y"
    using transfer_leave [OF a251, of R] times_Suc_end [of 251 R s] by simp
  have a455: "ppu_at (updatePPU_times 455 R s) HBLANK 204 y"
    using hblank_run [OF a252, of 203 R] updatePPU_times_add [of 252 203 R s] by simp
  show ?thesis
    using hblank_leave [OF a455 _ visible, of R] times_Suc_end [of 455 R s] by simp
qed

text \<open>
  C1, as the code has it. The invocation that enters a mode resets the counter and then
  increments it, so a scanline starts at counter 1; the wrap from scanline 153 enters
  scanline 0 in \<open>OAM_SCAN\<close> at counter 1. From the enabled pipeline at scanline 0, mode
  \<open>OAM_SCAN\<close>, counter 1: \<open>PIXEL_TRANSFER\<close> is entered after 80 invocations, \<open>HBLANK\<close> after
  172 more (252), and after exactly 456 invocations the scanline index is 1 and the mode
  is \<open>OAM_SCAN\<close> again, at counter 1. Leaving \<open>HBLANK\<close> from scanline 143 enters \<open>VBLANK\<close> at
  scanline 144 and raises bit 0 of the interrupt flags instead.
\<close>

theorem ppu_scanline_timeline:
  assumes start: "ppu_at s OAM_SCAN 1 0"
  shows "ppu_at (updatePPU_times 79 R s) OAM_SCAN 80 0
         \<and> ppu_at (updatePPU_times 80 R s) PIXEL_TRANSFER 1 0
         \<and> ppu_at (updatePPU_times 251 R s) PIXEL_TRANSFER 172 0
         \<and> ppu_at (updatePPU_times 252 R s) HBLANK 1 0
         \<and> ppu_at (updatePPU_times 455 R s) HBLANK 204 0
         \<and> ppu_at (updatePPU_times 456 R s) OAM_SCAN 1 1
         \<and> (\<forall>t c. ppu_at t HBLANK c 143 \<and> 204 \<le> c \<longrightarrow>
               ppu_at (updatePPU R t) VBLANK 1 144
               \<and> bit (int_flags (interrupts (updatePPU R t))) 0)
         \<and> (\<forall>t c. ppu_at t VBLANK c 153 \<and> 456 \<le> c \<longrightarrow>
               ppu_at (updatePPU R t) OAM_SCAN 1 0)"
proof -
  have a79: "ppu_at (updatePPU_times 79 R s) OAM_SCAN 80 0"
    using oam_run [OF start, of 79 R] by simp
  have a80: "ppu_at (updatePPU_times 80 R s) PIXEL_TRANSFER 1 0"
    using oam_leave [OF a79, of R] times_Suc_end [of 79 R s] by simp
  have a251: "ppu_at (updatePPU_times 251 R s) PIXEL_TRANSFER 172 0"
    using transfer_run [OF a80, of 171 R] updatePPU_times_add [of 80 171 R s] by simp
  have a252: "ppu_at (updatePPU_times 252 R s) HBLANK 1 0"
    using transfer_leave [OF a251, of R] times_Suc_end [of 251 R s] by simp
  have a455: "ppu_at (updatePPU_times 455 R s) HBLANK 204 0"
    using hblank_run [OF a252, of 203 R] updatePPU_times_add [of 252 203 R s] by simp
  have a456: "ppu_at (updatePPU_times 456 R s) OAM_SCAN 1 1"
    using hblank_leave [OF a455, of R] times_Suc_end [of 455 R s] by simp
  show ?thesis
    using a79 a80 a251 a252 a455 a456 hblank_to_vblank vblank_wrap by blast
qed

theorem ppu_scanline_timeline_witness:
  "ppu_at scanline_start_machine OAM_SCAN 1 0
   \<and> ppu_at (updatePPU_times 80 no_render scanline_start_machine) PIXEL_TRANSFER 1 0
   \<and> ppu_at (updatePPU_times 252 no_render scanline_start_machine) HBLANK 1 0
   \<and> ppu_at (updatePPU_times 456 no_render scanline_start_machine) OAM_SCAN 1 1"
proof -
  have start: "ppu_at scanline_start_machine OAM_SCAN 1 0"
    by (simp add: ppu_at_def scanline_start_machine_def blank_machine_def)
  show ?thesis
    using ppu_scanline_timeline [OF start, of no_render] start by simp
qed

text \<open>
  From counter 0 the scanline takes one invocation more: the counter is tested before it
  is incremented, so the first \<open>OAM_SCAN\<close> lasts 81 invocations.
\<close>

lemma ppu_from_counter_zero:
  assumes start: "ppu_at s OAM_SCAN 0 0"
  shows "ppu_at (updatePPU_times 80 R s) OAM_SCAN 80 0"
    and "ppu_at (updatePPU_times 81 R s) PIXEL_TRANSFER 1 0"
    and "ppu_at (updatePPU_times 252 R s) PIXEL_TRANSFER 172 0"
    and "ppu_at (updatePPU_times 253 R s) HBLANK 1 0"
    and "ppu_at (updatePPU_times 456 R s) HBLANK 204 0"
    and "ppu_at (updatePPU_times 457 R s) OAM_SCAN 1 1"
proof -
  show a80: "ppu_at (updatePPU_times 80 R s) OAM_SCAN 80 0"
    using oam_run [OF start, of 80 R] by simp
  show a81: "ppu_at (updatePPU_times 81 R s) PIXEL_TRANSFER 1 0"
    using oam_leave [OF a80, of R] times_Suc_end [of 80 R s] by simp
  show a252: "ppu_at (updatePPU_times 252 R s) PIXEL_TRANSFER 172 0"
    using transfer_run [OF a81, of 171 R] updatePPU_times_add [of 81 171 R s] by simp
  show a253: "ppu_at (updatePPU_times 253 R s) HBLANK 1 0"
    using transfer_leave [OF a252, of R] times_Suc_end [of 252 R s] by simp
  show a456: "ppu_at (updatePPU_times 456 R s) HBLANK 204 0"
    using hblank_run [OF a253, of 203 R] updatePPU_times_add [of 253 203 R s] by simp
  show "ppu_at (updatePPU_times 457 R s) OAM_SCAN 1 1"
    using hblank_leave [OF a456, of R] times_Suc_end [of 456 R s] by simp
qed

text \<open>
  The claim as stated starts at counter 0. On the zeroed machine, enabled, at scanline 0
  in \<open>OAM_SCAN\<close> with the counter at 0, the pipeline after 80 invocations is still in
  \<open>OAM_SCAN\<close>, and after 456 invocations it is in \<open>HBLANK\<close> at scanline 0, not in
  \<open>OAM_SCAN\<close> at scanline 1.
\<close>

theorem ppu_counter_zero_counterexample:
  "ppu_at blank_machine OAM_SCAN 0 0
   \<and> ppuMode (updatePPU_times 80 no_render blank_machine) = OAM_SCAN
   \<and> ppuMode (updatePPU_times 456 no_render blank_machine) = HBLANK
   \<and> ppuCycles (updatePPU_times 456 no_render blank_machine) = 204
   \<and> gfx_ly (graphics (updatePPU_times 456 no_render blank_machine)) = 0"
proof -
  have start: "ppu_at blank_machine OAM_SCAN 0 0"
    by (simp add: ppu_at_def blank_machine_def)
  show ?thesis
    using ppu_from_counter_zero(1) [OF start, of no_render]
      ppu_from_counter_zero(5) [OF start, of no_render] start
    by (simp add: ppu_at_def)
qed

section \<open>An opcode without a case\<close>

declare hex_of_nat.simps [simp del]

lemma execute_default:
  assumes "0x4F < opcode"
  shows "execute rw ww opcode s = Inr (s\<lparr>cerr := cerr s @ unknown_opcode_text opcode\<rparr>)"
proof -
  have "79 < unat opcode"
    using assms by (simp add: word_less_nat_alt)
  then show ?thesis
    unfolding execute_def by (simp add: word_unat_eq_iff)
qed

lemma default_step:
  assumes fetch: "readMemory16 (getPC s) s = Inr opcode" and nocase: "0x4F < opcode"
  shows "executeInstruction rw ww s
         = Inr (s\<lparr>registers := (registers s)\<lparr>reg_pc := reg_pc (registers s) + 1\<rparr>,
                  cerr := cerr s @ ''Unknown opcode: 0x'' @ hex_of_nat (unat opcode) @ [CHR 0x0A]\<rparr>)"
proof -
  have "executeInstruction rw ww s = execute rw ww opcode (set_PC (getPC s + 1) s)"
    by (simp add: executeInstruction_def bind_err_def fetch)
  also have "\<dots> = Inr ((set_PC (getPC s + 1) s)
                        \<lparr>cerr := cerr (set_PC (getPC s + 1) s) @ unknown_opcode_text opcode\<rparr>)"
    by (rule execute_default [OF nocase])
  also have "\<dots> = Inr (s\<lparr>registers := (registers s)\<lparr>reg_pc := reg_pc (registers s) + 1\<rparr>,
                  cerr := cerr s @ ''Unknown opcode: 0x'' @ hex_of_nat (unat opcode) @ [CHR 0x0A]\<rparr>)"
    by (simp add: set_PC_def getPC_def with_registers_def unknown_opcode_text_def)
  finally show ?thesis .
qed

lemma fetch_unknown_opcode_machine:
  "pc < 0x4000 \<Longrightarrow> readMemory16 (getPC (unknown_opcode_machine pc)) (unknown_opcode_machine pc)
     = Inr 0xD3"
  by (subst readMemory16.simps) (simp add: unknown_opcode_machine_def getPC_def)

lemma hex_D3: "hex_of_nat 211 = ''d3''"
  by (simp add: hex_of_nat.simps hex_digit_def)

text \<open>
  C7, as the code has it. For every opcode byte with no case in the \<open>switch\<close> (\<open>0x50\<close> up
  to \<open>0xFF\<close>) that the fetch returns, one step does not fail; it appends to \<open>std::cerr\<close>
  one line made of the opcode in hexadecimal and nothing else; the program counter is
  one past the opcode byte (modulo \<open>2^16\<close>); and every other component of the machine
  (registers, flags, memory regions, PPU and interrupt state) is as before.
\<close>

theorem unknown_opcode_step:
  assumes "readMemory16 (getPC s) s = Inr opcode" and "0x4F < opcode"
  shows "executeInstruction rw ww s
         = Inr (s\<lparr>registers := (registers s)\<lparr>reg_pc := reg_pc (registers s) + 1\<rparr>,
                  cerr := cerr s @ ''Unknown opcode: 0x'' @ hex_of_nat (unat opcode) @ [CHR 0x0A]\<rparr>)"
  using assms by (rule default_step)

theorem unknown_opcode_step_witness:
  "readMemory16 (getPC (unknown_opcode_machine 0x0100)) (unknown_opcode_machine 0x0100) = Inr 0xD3
   \<and> (0x4F :: u8) < 0xD3
   \<and> executeInstruction no_readWord no_writeWord (unknown_opcode_machine 0x0100)
       = Inr ((unknown_opcode_machine 0x0100)
                \<lparr>registers := (registers (unknown_opcode_machine 0x0100))\<lparr>reg_pc := 0x0101\<rparr>,
                 cerr := ''Unknown opcode: 0xd3'' @ [CHR 0x0A]\<rparr>)"
proof -
  have f: "readMemory16 (getPC (unknown_opcode_machine 0x0100)) (unknown_opcode_machine 0x0100)
           = Inr 0xD3"
    by (rule fetch_unknown_opcode_machine) simp
  have n: "(0x4F :: u8) < 0xD3" by simp
  have pc: "reg_pc (registers (unknown_opcode_machine 0x0100)) = 0x0100"
    and log: "cerr (unknown_opcode_machine 0x0100) = []"
    by (simp_all add: unknown_opcode_machine_def blank_machine_def)
  show ?thesis
    using unknown_opcode_step [OF f n, of no_readWord no_writeWord] f n
    by (simp add: pc log hex_D3)
qed

text \<open>
  The claim as stated has the address logged. The line written for the opcode \<open>0xD3\<close> at
  address \<open>0x0100\<close> and the line written for it at address \<open>0x0200\<close> are the same text,
  \<open>Unknown opcode: 0xd3\<close>: the address is not in the log.
\<close>

theorem unknown_opcode_log_counterexample:
  "executeInstruction no_readWord no_writeWord (unknown_opcode_machine 0x0100)
     = Inr ((unknown_opcode_machine 0x0100)
              \<lparr>registers := (registers (unknown_opcode_machine 0x0100))\<lparr>reg_pc := 0x0101\<rparr>,
               cerr := ''Unknown opcode: 0xd3'' @ [CHR 0x0A]\<rparr>)
   \<and> executeInstruction no_readWord no_writeWord (unknown_opcode_machine 0x0200)
     = Inr ((unknown_opcode_machine 0x0200)
              \<lparr>registers := (registers (unknown_opcode_machine 0x0200))\<lparr>reg_pc := 0x0201\<rparr>,
               cerr := ''Unknown opcode: 0xd3'' @ [CHR 0x0A]\<rparr>)"
proof -
  have n: "(0x4F :: u8) < 0xD3" by simp
  have f1: "readMemory16 (getPC (unknown_opcode_machine 0x0100)) (unknown_opcode_machine 0x0100)
            = Inr 0xD3"
    by (rule fetch_unknown_opcode_machine) simp
  have f2: "readMemory16 (getPC (unknown_opcode_machine 0x0200)) (unknown_opcode_machine 0x0200)
            = Inr 0xD3"
    by (rule fetch_unknown_opcode_machine) simp
  have pcs: "reg_pc (registers (unknown_opcode_machine 0x0100)) = 0x0100"
    "reg_pc (registers (unknown_opcode_machine 0x0200)) = 0x0200"
    and logs: "cerr (unknown_opcode_machine 0x0100) = []"
    "cerr (unknown_opcode_machine 0x0200) = []"
    by (simp_all add: unknown_opcode_machine_def blank_machine_def)
  show ?thesis
    using default_step [OF f1 n, of no_readWord no_writeWord]
      default_step [OF f2 n, of no_readWord no_writeWord]
    by (simp add: pcs logs hex_D3)
qed

text \<open>
  \<open>STOP\<close> (\<open>0x10\<close>) has a case whose body is empty: it is not an opcode without a case,
  and it writes nothing.
\<close>

lemma stop_is_silent: "execute rw ww 0x10 s = Inr s"
  by (simp add: execute_def)

section \<open>The envelope under ticks of the synthesizer\<close>

lemma unat_attack_rate: "unat (drop_bit 8 (x :: u16)) = unat x div 256"
  by (simp add: drop_bit_eq_div unat_div)

text \<open>
  One attack tick: the amplitude of a keyed-on voice becomes the smaller of the amplitude
  plus the attack rate (the high byte of \<open>adsr1\<close>) and the full scale \<open>0x7FFF\<close>.
\<close>

lemma updateADSR_attack:
  assumes "keyOn v"
  shows "unat (adsrVolume (updateADSR v))
         = min (unat (adsrVolume v) + unat (adsr1 v) div 256) 0x7FFF"
proof -
  let ?sum = "(ucast (adsrVolume v) :: u32) + ucast (drop_bit 8 (adsr1 v))"
  have b: "unat (adsrVolume v) < 65536" "unat (adsr1 v) div 256 < 256"
    using unat_u16_bound [of "adsrVolume v"] unat_u16_bound [of "adsr1 v"] by simp_all
  have sum: "unat ?sum = unat (adsrVolume v) + unat (adsr1 v) div 256"
    using b by (simp add: unat_word_ariths unat_up unat_attack_rate)
  have m: "unat (min ?sum 0x7FFF) = min (unat (adsrVolume v) + unat (adsr1 v) div 256) 0x7FFF"
    by (simp add: min_def word_le_nat_alt sum)
  have "unat (ucast (min ?sum 0x7FFF) :: u16) = unat (min ?sum 0x7FFF) mod 65536"
    by (simp add: unsigned_ucast_eq take_bit_eq_mod)
  also have "\<dots> = min (unat (adsrVolume v) + unat (adsr1 v) div 256) 0x7FFF"
    by (simp only: m) (simp add: min_def)
  finally show ?thesis
    using assms by (simp add: updateADSR_def)
qed

lemma updateADSR_full_scale:
  assumes "keyOn v" and "adsrVolume v = 0x7FFF"
  shows "adsrVolume (updateADSR v) = 0x7FFF"
proof -
  have "unat (adsrVolume (updateADSR v)) = unat (0x7FFF :: u16)"
    using updateADSR_attack [OF assms(1)] assms(2) by simp
  then show ?thesis by (simp only: word_unat_eq_iff)
qed

lemma updateADSR_keeps: "keyOn v \<Longrightarrow> keyOn (updateADSR v) \<and> adsr1 (updateADSR v) = adsr1 v"
  by (simp add: updateADSR_def)

text \<open>
  The attack half of the scenario, on the envelope itself: after \<open>n\<close> attack ticks a
  keyed-on voice that started at most at full scale has the amplitude
  \<open>min (start + n * rate) 0x7FFF\<close>; it never decreases, and with a rate above zero it is
  at full scale from tick \<open>0x7FFF\<close> (or earlier) on.
\<close>

lemma attack_ticks:
  assumes "keyOn v" and "unat (adsrVolume v) \<le> 0x7FFF"
  shows "keyOn ((updateADSR ^^ n) v) \<and> adsr1 ((updateADSR ^^ n) v) = adsr1 v
         \<and> unat (adsrVolume ((updateADSR ^^ n) v))
             = min (unat (adsrVolume v) + n * (unat (adsr1 v) div 256)) 0x7FFF"
proof (induction n)
  case 0
  then show ?case using assms by simp
next
  case (Suc n)
  let ?w = "(updateADSR ^^ n) v"
  have k: "keyOn ?w" and r: "adsr1 ?w = adsr1 v"
    and a: "unat (adsrVolume ?w) = min (unat (adsrVolume v) + n * (unat (adsr1 v) div 256)) 0x7FFF"
    using Suc.IH by simp_all
  have "unat (adsrVolume (updateADSR ?w))
        = min (unat (adsrVolume ?w) + unat (adsr1 ?w) div 256) 0x7FFF"
    by (rule updateADSR_attack [OF k])
  also have "\<dots> = min (unat (adsrVolume v) + Suc n * (unat (adsr1 v) div 256)) 0x7FFF"
    by (simp add: a r min_def)
  finally show ?case
    using updateADSR_keeps [OF k] r by simp
qed

lemma attack_reaches_full_scale:
  assumes "keyOn v" and "unat (adsrVolume v) \<le> 0x7FFF" and "0 < unat (adsr1 v) div 256"
    and "0x7FFF \<le> n"
  shows "adsrVolume ((updateADSR ^^ n) v) = 0x7FFF"
proof -
  have "n \<le> n * (unat (adsr1 v) div 256)"
    using assms(3) by simp
  then have "0x7FFF \<le> unat (adsrVolume v) + n * (unat (adsr1 v) div 256)"
    using assms(4) by linarith
  then have "unat (adsrVolume ((updateADSR ^^ n) v)) = unat (0x7FFF :: u16)"
    using attack_ticks [OF assms(1,2), of n] by (simp add: min_def)
  then show ?thesis by (simp only: word_unat_eq_iff)
qed

text \<open>\<open>processVoice\<close> touches only the voice it is given, and that one through \<open>updateADSR\<close>.\<close>

lemma processVoice_voices:
  assumes "processVoice j s = Inr s'"
  shows "length (voices s') = length (voices s)"
    and "i \<noteq> j \<Longrightarrow> voices s' ! i = voices s ! i"
    and "j < length (voices s) \<Longrightarrow> adsrVolume (voices s' ! j) = adsrVolume (updateADSR (voices s ! j))"
  using assms
  by (auto simp add: processVoice_def Let_def bind_err_def not_le split: if_splits sum.splits)

lemma process_voices_full_scale:
  assumes "process_voices js s = Inr s'"
    and "i < length (voices s)" and "adsrVolume (voices s ! i) = 0x7FFF"
  shows "length (voices s') = length (voices s) \<and> adsrVolume (voices s' ! i) = 0x7FFF"
  using assms
proof (induction js arbitrary: s)
  case Nil
  then show ?case by simp
next
  case (Cons j rest)
  show ?case
  proof (cases "keyOn (voices s ! j)")
    case False
    then have "process_voices rest s = Inr s'"
      using Cons.prems(1) by simp
    then show ?thesis
      using Cons.IH Cons.prems(2,3) by blast
  next
    case True
    then obtain s1 where p: "processVoice j s = Inr s1" and r: "process_voices rest s1 = Inr s'"
      using Cons.prems(1) by (auto simp add: bind_err_def split: sum.splits)
    have len: "length (voices s1) = length (voices s)"
      by (rule processVoice_voices(1) [OF p])
    have amp: "adsrVolume (voices s1 ! i) = 0x7FFF"
    proof (cases "i = j")
      case False
      then show ?thesis
        using processVoice_voices(2) [OF p] Cons.prems(3) by simp
    next
      case same: True
      have "adsrVolume (voices s1 ! j) = adsrVolume (updateADSR (voices s ! j))"
        using processVoice_voices(3) [OF p] Cons.prems(2) same by simp
      then show ?thesis
        using updateADSR_full_scale [OF True] Cons.prems(3) same by simp
    qed
    have "length (voices s') = length (voices s1) \<and> adsrVolume (voices s' ! i) = 0x7FFF"
      using Cons.IH [OF r] Cons.prems(2) len amp by simp
    then show ?thesis using len by simp
  qed
qed

lemma voices_after_mix:
  "voices (checkIRQ s) = voices s" "voices (mixOutput s) = voices s"
  "voices (processReverb s) = voices s"
  by (simp_all add: checkIRQ_def mixOutput_def processReverb_def Let_def)

lemma step_full_scale:
  assumes "step s = Inr s'"
    and "i < length (voices s)" and "adsrVolume (voices s ! i) = 0x7FFF"
  shows "length (voices s') = length (voices s) \<and> adsrVolume (voices s' ! i) = 0x7FFF"
proof -
  obtain s1 where p: "process_voices [0 ..< length (voices s)] s = Inr s1"
    and e: "s' = checkIRQ (let s2 = mixOutput s1
                           in if reverbEnabled s2 then processReverb s2 else s2)"
    using assms(1) by (auto simp add: step_def bind_err_def Let_def split: sum.splits)
  have "voices s' = voices s1"
    using e by (simp add: Let_def voices_after_mix)
  then show ?thesis
    using process_voices_full_scale [OF p assms(2,3)] by simp
qed

text \<open>
  C8, at the failing input and beyond. A voice at full scale is still at full scale after
  any number of ticks of \<open>step\<close>, whatever its \<open>keyOn\<close> and \<open>keyOff\<close> latches and its release
  rate: \<open>step\<close> passes over a voice whose \<open>keyOn\<close> is clear, and \<open>updateADSR\<close> takes the
  attack branch when \<open>keyOn\<close> is set, so the release branch is never run.
\<close>

theorem full_scale_never_released:
  assumes "step_times n s = Inr s'"
    and "i < length (voices s)" and "adsrVolume (voices s ! i) = 0x7FFF"
  shows "i < length (voices s') \<and> adsrVolume (voices s' ! i) = 0x7FFF"
  using assms
proof (induction n arbitrary: s)
  case 0
  then show ?case by simp
next
  case (Suc n)
  obtain s1 where t: "step s = Inr s1" and r: "step_times n s1 = Inr s'"
    using Suc.prems(1) by (auto simp add: bind_err_def split: sum.splits)
  have "length (voices s1) = length (voices s) \<and> adsrVolume (voices s1 ! i) = 0x7FFF"
    by (rule step_full_scale [OF t Suc.prems(2,3)])
  then show ?case
    using Suc.IH [OF r] Suc.prems(2) by simp
qed

text \<open>With no voice keyed on and an empty buffer, a tick returns the synthesizer as it was.\<close>

lemma process_voices_quiet:
  "\<forall>j \<in> set js. \<not> keyOn (voices s ! j) \<Longrightarrow> process_voices js s = Inr s"
  by (induction js) simp_all

lemma step_quiet:
  assumes "\<forall>v \<in> set (voices s). \<not> keyOn v" and "audioBuffer s = []" and "\<not> reverbEnabled s"
  shows "step s = Inr s"
proof -
  have "\<forall>j \<in> set [0 ..< length (voices s)]. \<not> keyOn (voices s ! j)"
    using assms(1) by simp
  then have "process_voices [0 ..< length (voices s)] s = Inr s"
    by (rule process_voices_quiet)
  then show ?thesis
    using assms(2,3) by (simp add: step_def bind_err_def mixOutput_def checkIRQ_def)
qed

lemma step_times_quiet:
  assumes "\<forall>v \<in> set (voices s). \<not> keyOn v" and "audioBuffer s = []" and "\<not> reverbEnabled s"
  shows "step_times n s = Inr s"
  by (induction n) (simp_all add: step_quiet [OF assms] bind_err_def)

lemma released_spu_quiet: "step_times n released_spu = Inr released_spu"
  by (rule step_times_quiet)
     (simp_all add: released_spu_def released_voice_def silent_voice_def)

theorem full_scale_never_released_witness:
  "step_times 1000 released_spu = Inr released_spu
   \<and> (0 :: nat) < length (voices released_spu)
   \<and> \<not> keyOn (voices released_spu ! 0) \<and> keyOff (voices released_spu ! 0)
   \<and> adsr2 (voices released_spu ! 0) AND 0xFF = 0xFF
   \<and> adsrVolume (voices released_spu ! 0) = 0x7FFF"
proof -
  have run: "step_times 1000 released_spu = Inr released_spu"
    by (rule released_spu_quiet)
  have i: "(0 :: nat) < length (voices released_spu)"
    and a: "adsrVolume (voices released_spu ! 0) = 0x7FFF"
    by (simp_all add: released_spu_def released_voice_def)
  have more: "\<not> keyOn (voices released_spu ! 0)" "keyOff (voices released_spu ! 0)"
    "adsr2 (voices released_spu ! 0) AND 0xFF = 0xFF"
    by (simp_all add: released_spu_def released_voice_def silent_voice_def)
  show ?thesis
    using full_scale_never_released [OF run i a] run i more by simp
qed

end
